theory Spec2Isabelle
  imports Complex_Main
begin

section \<open>JavaScript numbers\<close>

text \<open>
  The engine computes on JavaScript numbers. A number is modelled as a finite real,
  one of the two infinities, or NaN. Arithmetic on finite values is exact (rounding and
  overflow of doubles are not modelled); the special values follow IEEE 754: a non-zero
  finite value divided by zero is an infinity, \<open>0 / 0\<close>, \<open>0 * Infinity\<close> and
  \<open>Infinity - Infinity\<close> are NaN, NaN is absorbing, and every comparison with NaN is
  false. The sign of zero is not modelled: a zero divisor counts as \<open>+0\<close>.
  \<open>a > b\<close> is \<open>b < a\<close> and \<open>a \<ge> b\<close> is \<open>b \<le> a\<close>, as in JavaScript.
\<close>

datatype jsnum = Fin real | PInf | NInf | NaN

instantiation jsnum :: "{plus, minus, uminus, times, inverse, abs, ord}"
begin

fun plus_jsnum :: "jsnum \<Rightarrow> jsnum \<Rightarrow> jsnum" where
  "plus_jsnum NaN _ = NaN"
| "plus_jsnum _ NaN = NaN"
| "plus_jsnum (Fin a) (Fin b) = Fin (a + b)"
| "plus_jsnum PInf NInf = NaN"
| "plus_jsnum NInf PInf = NaN"
| "plus_jsnum PInf _ = PInf"
| "plus_jsnum _ PInf = PInf"
| "plus_jsnum NInf _ = NInf"
| "plus_jsnum _ NInf = NInf"

fun uminus_jsnum :: "jsnum \<Rightarrow> jsnum" where
  "uminus_jsnum (Fin a) = Fin (- a)"
| "uminus_jsnum PInf = NInf"
| "uminus_jsnum NInf = PInf"
| "uminus_jsnum NaN = NaN"

definition minus_jsnum :: "jsnum \<Rightarrow> jsnum \<Rightarrow> jsnum" where
  "minus_jsnum a b = a + (- b)"

fun times_jsnum :: "jsnum \<Rightarrow> jsnum \<Rightarrow> jsnum" where
  "times_jsnum NaN _ = NaN"
| "times_jsnum _ NaN = NaN"
| "times_jsnum (Fin a) (Fin b) = Fin (a * b)"
| "times_jsnum (Fin a) PInf = (if a > 0 then PInf else if a < 0 then NInf else NaN)"
| "times_jsnum (Fin a) NInf = (if a > 0 then NInf else if a < 0 then PInf else NaN)"
| "times_jsnum PInf (Fin b) = (if b > 0 then PInf else if b < 0 then NInf else NaN)"
| "times_jsnum NInf (Fin b) = (if b > 0 then NInf else if b < 0 then PInf else NaN)"
| "times_jsnum PInf PInf = PInf"
| "times_jsnum NInf NInf = PInf"
| "times_jsnum PInf NInf = NInf"
| "times_jsnum NInf PInf = NInf"

fun divide_jsnum :: "jsnum \<Rightarrow> jsnum \<Rightarrow> jsnum" where
  "divide_jsnum NaN _ = NaN"
| "divide_jsnum _ NaN = NaN"
| "divide_jsnum (Fin a) (Fin b) =
     (if b \<noteq> 0 then Fin (a / b)
      else if a > 0 then PInf else if a < 0 then NInf else NaN)"
| "divide_jsnum (Fin a) _ = Fin 0"
| "divide_jsnum PInf (Fin b) = (if b \<ge> 0 then PInf else NInf)"
| "divide_jsnum NInf (Fin b) = (if b \<ge> 0 then NInf else PInf)"
| "divide_jsnum _ _ = NaN"

definition inverse_jsnum :: "jsnum \<Rightarrow> jsnum" where
  "inverse_jsnum a = divide (Fin 1) a"

fun abs_jsnum :: "jsnum \<Rightarrow> jsnum" where
  "abs_jsnum (Fin a) = Fin \<bar>a\<bar>"
| "abs_jsnum NaN = NaN"
| "abs_jsnum _ = PInf"

fun less_jsnum :: "jsnum \<Rightarrow> jsnum \<Rightarrow> bool" where
  "less_jsnum (Fin a) (Fin b) = (a < b)"
| "less_jsnum (Fin a) PInf = True"
| "less_jsnum NInf (Fin b) = True"
| "less_jsnum NInf PInf = True"
| "less_jsnum _ _ = False"

fun less_eq_jsnum :: "jsnum \<Rightarrow> jsnum \<Rightarrow> bool" where
  "less_eq_jsnum (Fin a) (Fin b) = (a \<le> b)"
| "less_eq_jsnum NaN _ = False"
| "less_eq_jsnum _ NaN = False"
| "less_eq_jsnum NInf _ = True"
| "less_eq_jsnum _ PInf = True"
| "less_eq_jsnum _ _ = False"

instance ..

end

text \<open>The comparison \<open>a == b\<close> of two numbers: false when either is NaN.\<close>

definition js_eq :: "jsnum \<Rightarrow> jsnum \<Rightarrow> bool" where
  "js_eq a b = (a \<noteq> NaN \<and> b \<noteq> NaN \<and> a = b)"

text \<open>\<open>Math.max\<close> of two numbers: NaN when either is NaN.\<close>

fun js_max :: "jsnum \<Rightarrow> jsnum \<Rightarrow> jsnum" where
  "js_max NaN _ = NaN"
| "js_max _ NaN = NaN"
| "js_max a b = (if a < b then b else a)"

fun js_min :: "jsnum \<Rightarrow> jsnum \<Rightarrow> jsnum" where
  "js_min NaN _ = NaN"
| "js_min _ NaN = NaN"
| "js_min a b = (if b < a then b else a)"

text \<open>\<open>Math.max(...xs)\<close> and \<open>Math.min(...xs)\<close>: the fold starts from the
  identity (\<open>-Infinity\<close>, \<open>Infinity\<close>).\<close>

definition js_max_list :: "jsnum list \<Rightarrow> jsnum" where
  "js_max_list xs = foldl js_max NInf xs"

definition js_min_list :: "jsnum list \<Rightarrow> jsnum" where
  "js_min_list xs = foldl js_min PInf xs"

fun js_sqrt :: "jsnum \<Rightarrow> jsnum" where
  "js_sqrt (Fin a) = (if a < 0 then NaN else Fin (sqrt a))"
| "js_sqrt PInf = PInf"
| "js_sqrt _ = NaN"

text \<open>\<open>Math.pow(a, 2)\<close>\<close>

definition js_pow2 :: "jsnum \<Rightarrow> jsnum" where
  "js_pow2 a = a * a"

text \<open>Truthiness of a number: \<open>0\<close> and NaN are falsy.\<close>

definition truthy :: "jsnum \<Rightarrow> bool" where
  "truthy a = (a \<noteq> Fin 0 \<and> a \<noteq> NaN)"

text \<open>A property that may be missing from an object reads as \<open>undefined\<close>, which
  is falsy and converts to NaN in arithmetic and in comparisons.\<close>

definition num_of :: "jsnum option \<Rightarrow> jsnum" where
  "num_of v = (case v of None \<Rightarrow> NaN | Some a \<Rightarrow> a)"

text \<open>\<open>xs[i]\<close> read as a number: \<open>undefined\<close> (hence NaN) out of range.\<close>

definition js_at :: "jsnum list \<Rightarrow> int \<Rightarrow> jsnum" where
  "js_at xs i = (if 0 \<le> i \<and> i < int (length xs) then xs ! nat i else NaN)"

text \<open>\<open>xs.reduce((sum, v) => sum + v, 0)\<close>\<close>

definition js_sum :: "jsnum list \<Rightarrow> jsnum" where
  "js_sum xs = foldl (+) (Fin 0) xs"

text \<open>\<open>xs.slice(-k)\<close> for \<open>k > 0\<close>: the last \<open>k\<close> elements.\<close>

definition slice_last :: "nat \<Rightarrow> 'a list \<Rightarrow> 'a list" where
  "slice_last k xs = drop (length xs - k) xs"

text \<open>\<open>xs.slice(-a, -b)\<close> for \<open>a > b > 0\<close>.\<close>

definition slice_neg :: "nat \<Rightarrow> nat \<Rightarrow> 'a list \<Rightarrow> 'a list" where
  "slice_neg a b xs = drop (length xs - a) (take (length xs - b) xs)"

section \<open>Data model (types.ts)\<close>

datatype Timeframe = TF_1m | TF_5m | TF_15m | TF_30m | TF_1h | TF_4h | TF_1d | TF_1w

datatype MarketRegime = TRENDING | RANGING | VOLATILE

record MarketData =
  symbol :: string
  timestamp :: jsnum
  open_p :: jsnum
  high :: jsnum
  low :: jsnum
  close :: jsnum
  volume :: jsnum
  timeframe :: Timeframe

datatype TradeSignal = LONG | SHORT | NEUTRAL

datatype Style = TREND | MEAN_REVERSION | BREAKOUT

datatype StopLossType = SL_atr | SL_percentage

record BackTestMetrics =
  bt_winRate :: jsnum
  expectancy :: jsnum
  bt_trades :: nat
  avgWin :: jsnum
  avgLoss :: jsnum

record StrategyConfig =
  id_s :: string
  name :: string
  style :: Style
  riskPerTrade :: jsnum
  takeProfitRatio :: jsnum
  stopLossType :: StopLossType
  ind_primary :: "string list"
  ind_confirmation :: "string list"
  suitableRegimes :: "MarketRegime list"
  backTestResult :: "BackTestMetrics option"
  type_s :: "string option"

datatype Side = long | short

record Trade =
  entryTime :: jsnum
  entryPrice :: jsnum
  exitTime :: jsnum
  exitPrice :: jsnum
  type_t :: Side
  pnl :: jsnum
  pnlPercentage :: jsnum
  exitReason :: string

record BacktestResult =
  initialCapital :: jsnum
  finalCapital :: jsnum
  totalPnL :: jsnum
  totalPnLPercentage :: jsnum
  trades :: "Trade list"
  winRate :: jsnum
  averageWin :: jsnum
  averageLoss :: jsnum
  profitFactor :: jsnum
  maxDrawdown :: jsnum
  sharpeRatio :: jsnum
  equity :: "jsnum list"
  drawdowns :: "jsnum list"
  strategyId :: string
  strategyName :: string
  startTime :: jsnum
  endTime :: jsnum
  res_symbol :: string
  res_timeframe :: Timeframe

section \<open>The indicator library\<close>

text \<open>
  The indicator service calls the third-party package \<open>technicalindicators\<close>, which is
  not part of the repository. Its entry points are a parameter of the model: each takes
  the arguments the service passes and returns the list of results, or \<open>None\<close> when
  the call throws. Results are typed as the service's annotations declare them.
\<close>

record MacdOut =
  MACD :: jsnum
  signal :: jsnum
  histogram :: jsnum

record Bands =
  upper :: jsnum
  middle :: jsnum
  lower :: jsnum

record StochOut =
  stoch_k :: jsnum
  stoch_d :: jsnum

record ta_lib =
  SMA_calculate :: "nat \<Rightarrow> jsnum list \<Rightarrow> jsnum list option"
  EMA_calculate :: "nat \<Rightarrow> jsnum list \<Rightarrow> jsnum list option"
  RSI_calculate :: "nat \<Rightarrow> jsnum list \<Rightarrow> jsnum list option"
  MACD_calculate :: "nat \<Rightarrow> nat \<Rightarrow> nat \<Rightarrow> jsnum list \<Rightarrow> MacdOut list option"
  BollingerBands_calculate :: "nat \<Rightarrow> jsnum list \<Rightarrow> jsnum \<Rightarrow> Bands list option"
  ATR_calculate :: "jsnum list \<Rightarrow> jsnum list \<Rightarrow> jsnum list \<Rightarrow> nat \<Rightarrow> jsnum list option"
  ADX_calculate :: "jsnum list \<Rightarrow> jsnum list \<Rightarrow> jsnum list \<Rightarrow> nat \<Rightarrow> jsnum list option"
  Stochastic_calculate ::
    "jsnum list \<Rightarrow> jsnum list \<Rightarrow> jsnum list \<Rightarrow> nat \<Rightarrow> nat \<Rightarrow> StochOut list option"

section \<open>IndicatorService (indicators.ts)\<close>

text \<open>The untyped indicator object: every key may be absent.\<close>

record MacdInd =
  line :: jsnum
  macd_signal :: jsnum
  macd_histogram :: jsnum

record IndicatorMap =
  price :: "jsnum option"
  priceChange :: "jsnum option"
  volatility :: "jsnum option"
  sma50 :: "jsnum option"
  ema20 :: "jsnum option"
  adx :: "jsnum option"
  macd :: "MacdInd option"
  bollinger :: "Bands option"
  rsi :: "jsnum option"
  stochastic :: "StochOut option"
  atr :: "jsnum option"
  donchian :: "Bands option"
  volumeChange :: "jsnum option"

text \<open>The empty object \<open>{}\<close>.\<close>

definition no_indicators :: IndicatorMap where
  "no_indicators =
     \<lparr>price = None, priceChange = None, volatility = None, sma50 = None, ema20 = None,
      adx = None, macd = None, bollinger = None, rsi = None, stochastic = None,
      atr = None, donchian = None, volumeChange = None\<rparr>"

definition calculatePriceChange :: "jsnum list \<Rightarrow> jsnum" where
  "calculatePriceChange closes =
     (if length closes < 2 then Fin 0
      else
        let oldPrice = js_at closes (int (length closes) - 25);
            newPrice = js_at closes (int (length closes) - 1)
        in ((newPrice - oldPrice) / oldPrice) * Fin 100)"

text \<open>The per-step returns \<open>(xs[i] - xs[i-1]) / xs[i-1]\<close> for \<open>i\<close> from 1.\<close>

definition step_returns :: "jsnum list \<Rightarrow> jsnum list" where
  "step_returns xs = map (\<lambda>i. (xs ! i - xs ! (i - 1)) / xs ! (i - 1)) [1..<length xs]"

definition calculateVolatility :: "jsnum list \<Rightarrow> jsnum" where
  "calculateVolatility closes =
     (if length closes < 20 then Fin 0
      else
        let returns = step_returns closes;
            mean = js_sum returns / Fin (real (length returns));
            variance = foldl (\<lambda>sum val. sum + js_pow2 (val - mean)) (Fin 0) returns
                         / Fin (real (length returns))
        in js_sqrt variance * Fin 100 * Fin (sqrt 24))"

text \<open>A library call inside \<open>try\<close>: the last result, or the default when the
  result is empty or the call throws.\<close>

definition last_or :: "'a \<Rightarrow> 'a list option \<Rightarrow> 'a" where
  "last_or dflt r = (case r of None \<Rightarrow> dflt | Some xs \<Rightarrow> if length xs > 0 then last xs else dflt)"

definition calculateSMA :: "ta_lib \<Rightarrow> jsnum list \<Rightarrow> nat \<Rightarrow> jsnum" where
  "calculateSMA lib vals period = last_or (Fin 0) (SMA_calculate lib period vals)"

definition calculateEMA :: "ta_lib \<Rightarrow> jsnum list \<Rightarrow> nat \<Rightarrow> jsnum" where
  "calculateEMA lib vals period = last_or (Fin 0) (EMA_calculate lib period vals)"

definition calculateRSI :: "ta_lib \<Rightarrow> jsnum list \<Rightarrow> nat \<Rightarrow> jsnum" where
  "calculateRSI lib vals period = last_or (Fin 50) (RSI_calculate lib period vals)"

definition calculateMACD :: "ta_lib \<Rightarrow> jsnum list \<Rightarrow> MacdInd" where
  "calculateMACD lib vals =
     (case MACD_calculate lib 12 26 9 vals of
        None \<Rightarrow> \<lparr>line = Fin 0, macd_signal = Fin 0, macd_histogram = Fin 0\<rparr>
      | Some result \<Rightarrow>
          if length result > 0 then
            let latest = last result
            in \<lparr>line = MACD latest, macd_signal = signal latest,
                macd_histogram = histogram latest\<rparr>
          else \<lparr>line = Fin 0, macd_signal = Fin 0, macd_histogram = Fin 0\<rparr>)"

definition bollinger_default :: "jsnum list \<Rightarrow> Bands" where
  "bollinger_default vals =
     (let avg = (if length vals > 0 then js_sum vals / Fin (real (length vals)) else Fin 0)
      in \<lparr>upper = avg * Fin 1.02, middle = avg, lower = avg * Fin 0.98\<rparr>)"

definition calculateBollingerBands :: "ta_lib \<Rightarrow> jsnum list \<Rightarrow> nat \<Rightarrow> jsnum \<Rightarrow> Bands" where
  "calculateBollingerBands lib vals period stdDev =
     (case BollingerBands_calculate lib period vals stdDev of
        None \<Rightarrow> bollinger_default vals
      | Some result \<Rightarrow>
          if length result > 0 then
            let latest = last result
            in \<lparr>upper = upper latest, middle = middle latest, lower = lower latest\<rparr>
          else bollinger_default vals)"

definition calculateATR :: "ta_lib \<Rightarrow> jsnum list \<Rightarrow> jsnum list \<Rightarrow> jsnum list \<Rightarrow> nat \<Rightarrow> jsnum" where
  "calculateATR lib highs lows closes period =
     last_or (Fin 0) (ATR_calculate lib highs lows closes period)"

definition calculateADX :: "ta_lib \<Rightarrow> jsnum list \<Rightarrow> jsnum list \<Rightarrow> jsnum list \<Rightarrow> nat \<Rightarrow> jsnum" where
  "calculateADX lib highs lows closes period =
     last_or (Fin 0) (ADX_calculate lib highs lows closes period)"

definition calculateStochastic ::
  "ta_lib \<Rightarrow> jsnum list \<Rightarrow> jsnum list \<Rightarrow> jsnum list \<Rightarrow> nat \<Rightarrow> nat \<Rightarrow> StochOut" where
  "calculateStochastic lib highs lows closes period signalPeriod =
     (case Stochastic_calculate lib highs lows closes period signalPeriod of
        None \<Rightarrow> \<lparr>stoch_k = Fin 50, stoch_d = Fin 50\<rparr>
      | Some result \<Rightarrow>
          if length result > 0 then
            let latest = last result
            in \<lparr>stoch_k = stoch_k latest, stoch_d = stoch_d latest\<rparr>
          else \<lparr>stoch_k = Fin 50, stoch_d = Fin 50\<rparr>)"

definition calculateDonchianChannels :: "jsnum list \<Rightarrow> jsnum list \<Rightarrow> nat \<Rightarrow> Bands" where
  "calculateDonchianChannels highs lows period =
     (if length highs < period \<or> length lows < period
      then \<lparr>upper = Fin 0, middle = Fin 0, lower = Fin 0\<rparr>
      else
        let highsSlice = slice_last period highs;
            lowsSlice = slice_last period lows;
            up = js_max_list highsSlice;
            lo = js_min_list lowsSlice;
            mid = (up + lo) / Fin 2
        in \<lparr>upper = up, middle = mid, lower = lo\<rparr>)"

definition calculateVolumeChange :: "ta_lib \<Rightarrow> jsnum list \<Rightarrow> jsnum" where
  "calculateVolumeChange lib volumes =
     (if length volumes < 20 then Fin 0
      else
        let recentAvg = calculateSMA lib (slice_last 5 volumes) 5;
            previousAvg = calculateSMA lib (slice_neg 20 5 volumes) 15
        in if Fin 0 < previousAvg
           then ((recentAvg - previousAvg) / previousAvg) * Fin 100
           else Fin 0)"

definition calculateIndicators :: "ta_lib \<Rightarrow> MarketData list \<Rightarrow> StrategyConfig \<Rightarrow> IndicatorMap" where
  "calculateIndicators lib data strategy =
     (if length data < 50
      then no_indicators\<lparr>price := Some (if length data > 0 then close (last data) else Fin 0)\<rparr>
      else
        let closes = map close data;
            highs = map high data;
            lows = map low data;
            volumes = map volume data;
            common = no_indicators
              \<lparr>price := Some (js_at closes (int (length closes) - 1)),
               priceChange := Some (calculatePriceChange closes),
               volatility := Some (calculateVolatility closes)\<rparr>;
            with_trend =
              (if style strategy = TREND
               then common
                 \<lparr>sma50 := Some (calculateSMA lib closes 50),
                  ema20 := Some (calculateEMA lib closes 20),
                  adx := Some (calculateADX lib highs lows closes 14),
                  macd := Some (calculateMACD lib closes)\<rparr>
               else common);
            with_mean =
              (if style strategy = MEAN_REVERSION
               then with_trend
                 \<lparr>bollinger := Some (calculateBollingerBands lib closes 20 (Fin 2)),
                  rsi := Some (calculateRSI lib closes 14),
                  stochastic := Some (calculateStochastic lib highs lows closes 14 3)\<rparr>
               else with_trend);
            with_breakout =
              (if style strategy = BREAKOUT
               then with_mean
                 \<lparr>atr := Some (calculateATR lib highs lows closes 14),
                  donchian := Some (calculateDonchianChannels highs lows 20),
                  volumeChange := Some (calculateVolumeChange lib volumes)\<rparr>
               else with_mean)
        in with_breakout)"

section \<open>BacktestingEngine: the signal rules\<close>

definition generateTrendSignal :: "MarketData \<Rightarrow> IndicatorMap \<Rightarrow> TradeSignal" where
  "generateTrendSignal candle ind =
     (if truthy (num_of (ema20 ind)) \<and> truthy (num_of (sma50 ind)) then
        case macd ind of
          None \<Rightarrow> NEUTRAL
        | Some m \<Rightarrow>
            if num_of (sma50 ind) < num_of (ema20 ind)
               \<and> Fin 0 < macd_histogram m \<and> Fin 25 < num_of (adx ind)
            then LONG
            else if num_of (ema20 ind) < num_of (sma50 ind)
               \<and> macd_histogram m < Fin 0 \<and> Fin 25 < num_of (adx ind)
            then SHORT
            else NEUTRAL
      else NEUTRAL)"

definition generateMeanReversionSignal :: "MarketData \<Rightarrow> IndicatorMap \<Rightarrow> TradeSignal" where
  "generateMeanReversionSignal candle ind =
     (if truthy (num_of (rsi ind)) then
        case bollinger ind of
          None \<Rightarrow> NEUTRAL
        | Some bands \<Rightarrow>
            if num_of (rsi ind) < Fin 30 \<and> close candle < lower bands * Fin 1.01
            then LONG
            else if Fin 70 < num_of (rsi ind) \<and> upper bands * Fin 0.99 < close candle
            then SHORT
            else NEUTRAL
      else NEUTRAL)"

definition generateBreakoutSignal :: "MarketData \<Rightarrow> IndicatorMap \<Rightarrow> TradeSignal" where
  "generateBreakoutSignal candle ind =
     (case donchian ind of
        None \<Rightarrow> NEUTRAL
      | Some channel \<Rightarrow>
          if truthy (num_of (volumeChange ind)) then
            if upper channel < close candle \<and> Fin 20 < num_of (volumeChange ind)
            then LONG
            else if close candle < lower channel \<and> Fin 20 < num_of (volumeChange ind)
            then SHORT
            else NEUTRAL
          else NEUTRAL)"

text \<open>The \<open>switch\<close> on the style; its \<open>default\<close> branch is unreachable for the three
  styles of the type.\<close>

definition generateSignal :: "MarketData \<Rightarrow> IndicatorMap \<Rightarrow> StrategyConfig \<Rightarrow> TradeSignal" where
  "generateSignal candle ind strategy =
     (case style strategy of
        TREND \<Rightarrow> generateTrendSignal candle ind
      | MEAN_REVERSION \<Rightarrow> generateMeanReversionSignal candle ind
      | BREAKOUT \<Rightarrow> generateBreakoutSignal candle ind)"

section \<open>BacktestingEngine.runBacktest\<close>

text \<open>The exception the engine throws: \<open>new Error(message)\<close>.\<close>

datatype error = Error string

text \<open>The mutable locals of \<open>runBacktest\<close>.\<close>

record bt_state =
  st_trades :: "Trade list"
  capital :: jsnum
  position :: "Side option"
  st_entryPrice :: jsnum
  st_entryTime :: jsnum
  positionSize :: jsnum
  stopLoss :: jsnum
  takeProfit :: jsnum
  st_equity :: "jsnum list"
  st_drawdowns :: "jsnum list"
  maxEquity :: jsnum
  st_maxDrawdown :: jsnum

definition init_state :: "jsnum \<Rightarrow> bt_state" where
  "init_state initialCap =
     \<lparr>st_trades = [], capital = initialCap, position = None, st_entryPrice = Fin 0,
      st_entryTime = Fin 0, positionSize = Fin 0, stopLoss = Fin 0, takeProfit = Fin 0,
      st_equity = [initialCap], st_drawdowns = [Fin 0], maxEquity = initialCap,
      st_maxDrawdown = Fin 0\<rparr>"

text \<open>\<open>indicators.atr || currentCandle.high - currentCandle.low\<close>\<close>

definition atr_value :: "IndicatorMap \<Rightarrow> MarketData \<Rightarrow> jsnum" where
  "atr_value ind currentCandle =
     (if truthy (num_of (atr ind)) then num_of (atr ind)
      else high currentCandle - low currentCandle)"

text \<open>No position and a LONG or SHORT signal: size the position and enter.\<close>

definition enter_position ::
  "StrategyConfig \<Rightarrow> MarketData \<Rightarrow> IndicatorMap \<Rightarrow> TradeSignal \<Rightarrow> bt_state \<Rightarrow> bt_state" where
  "enter_position strategy currentCandle ind sig st =
     (let riskAmount = capital st * riskPerTrade strategy;
          atrValue = atr_value ind currentCandle;
          stopLossPrice =
            (if sig = LONG then close currentCandle - atrValue * Fin 2
             else close currentCandle + atrValue * Fin 2);
          tp =
            (if sig = LONG
             then close currentCandle + atrValue * Fin 2 * takeProfitRatio strategy
             else close currentCandle - atrValue * Fin 2 * takeProfitRatio strategy);
          riskPerUnit = \<bar>close currentCandle - stopLossPrice\<bar>
      in st\<lparr>positionSize := riskAmount / riskPerUnit,
            position := Some (if sig = LONG then long else short),
            st_entryPrice := close currentCandle,
            st_entryTime := timestamp currentCandle,
            stopLoss := stopLossPrice,
            takeProfit := tp\<rparr>)"

text \<open>The exit reason and the price difference of an open position on the current
  candle; the reason is the empty string when no exit condition holds.\<close>

definition exit_decision :: "Side \<Rightarrow> jsnum \<Rightarrow> TradeSignal \<Rightarrow> bt_state \<Rightarrow> string \<times> jsnum" where
  "exit_decision pos currentPrice sig st =
     (if (pos = long \<and> currentPrice \<le> stopLoss st) \<or> (pos = short \<and> stopLoss st \<le> currentPrice)
      then (''Stop Loss'',
            if pos = long then stopLoss st - st_entryPrice st else st_entryPrice st - stopLoss st)
      else if (pos = long \<and> takeProfit st \<le> currentPrice)
              \<or> (pos = short \<and> currentPrice \<le> takeProfit st)
      then (''Take Profit'',
            if pos = long then takeProfit st - st_entryPrice st
            else st_entryPrice st - takeProfit st)
      else if (pos = long \<and> sig = SHORT) \<or> (pos = short \<and> sig = LONG)
      then (''Signal Reversal'',
            if pos = long then currentPrice - st_entryPrice st
            else st_entryPrice st - currentPrice)
      else ([], Fin 0))"

definition exit_price :: "string \<Rightarrow> jsnum \<Rightarrow> bt_state \<Rightarrow> jsnum" where
  "exit_price reason currentPrice st =
     (if reason = ''Stop Loss'' then stopLoss st
      else if reason = ''Take Profit'' then takeProfit st
      else currentPrice)"

text \<open>A position is open: close it when an exit condition holds.\<close>

definition check_exit :: "MarketData \<Rightarrow> TradeSignal \<Rightarrow> Side \<Rightarrow> bt_state \<Rightarrow> bt_state" where
  "check_exit currentCandle sig pos st =
     (let currentPrice = close currentCandle;
          reason = fst (exit_decision pos currentPrice sig st);
          pnl_unit = snd (exit_decision pos currentPrice sig st)
      in if reason \<noteq> [] then
           let pnlAmount = pnl_unit * positionSize st
           in st\<lparr>capital := capital st + pnlAmount,
                 st_trades := st_trades st @
                   [\<lparr>entryTime = st_entryTime st,
                     entryPrice = st_entryPrice st,
                     exitTime = timestamp currentCandle,
                     exitPrice = exit_price reason currentPrice st,
                     type_t = pos,
                     pnl = pnlAmount,
                     pnlPercentage =
                       (pnlAmount / (st_entryPrice st * positionSize st)) * Fin 100,
                     exitReason = reason\<rparr>],
                 position := None,
                 st_entryPrice := Fin 0,
                 st_entryTime := Fin 0,
                 positionSize := Fin 0,
                 stopLoss := Fin 0,
                 takeProfit := Fin 0\<rparr>
         else st)"

text \<open>The signal handling of one candle.\<close>

definition process_signal ::
  "StrategyConfig \<Rightarrow> MarketData \<Rightarrow> IndicatorMap \<Rightarrow> TradeSignal \<Rightarrow> bt_state \<Rightarrow> bt_state" where
  "process_signal strategy currentCandle ind sig st =
     (case position st of
        None \<Rightarrow>
          if sig = LONG \<or> sig = SHORT then enter_position strategy currentCandle ind sig st
          else st
      | Some pos \<Rightarrow> check_exit currentCandle sig pos st)"

text \<open>The equity curve and drawdown update that ends every iteration.\<close>

definition update_equity :: "bt_state \<Rightarrow> bt_state" where
  "update_equity st =
     (let maxEq = js_max (maxEquity st) (capital st);
          currentDrawdown = ((maxEq - capital st) / maxEq) * Fin 100
      in st\<lparr>st_equity := st_equity st @ [capital st],
            maxEquity := maxEq,
            st_drawdowns := st_drawdowns st @ [currentDrawdown],
            st_maxDrawdown := js_max (st_maxDrawdown st) currentDrawdown\<rparr>)"

text \<open>The indicators and the signal the engine computes at candle \<open>i\<close>.\<close>

definition indicators_at :: "ta_lib \<Rightarrow> MarketData list \<Rightarrow> StrategyConfig \<Rightarrow> nat \<Rightarrow> IndicatorMap" where
  "indicators_at lib marketData strategy i =
     calculateIndicators lib (take (i + 1) marketData) strategy"

definition signal_at :: "ta_lib \<Rightarrow> MarketData list \<Rightarrow> StrategyConfig \<Rightarrow> nat \<Rightarrow> TradeSignal" where
  "signal_at lib marketData strategy i =
     generateSignal (marketData ! i) (indicators_at lib marketData strategy i) strategy"

text \<open>One iteration of the loop, at index \<open>i\<close>.\<close>

definition process_candle ::
  "ta_lib \<Rightarrow> MarketData list \<Rightarrow> StrategyConfig \<Rightarrow> bt_state \<Rightarrow> nat \<Rightarrow> bt_state" where
  "process_candle lib marketData strategy st i =
     update_equity
       (process_signal strategy (marketData ! i) (indicators_at lib marketData strategy i)
          (signal_at lib marketData strategy i) st)"

text \<open>\<open>for (let i = 50; i < marketData.length; i++)\<close>\<close>

definition run_loop :: "ta_lib \<Rightarrow> MarketData list \<Rightarrow> StrategyConfig \<Rightarrow> jsnum \<Rightarrow> bt_state" where
  "run_loop lib marketData strategy initialCap =
     foldl (process_candle lib marketData strategy) (init_state initialCap)
       [50..<length marketData]"

text \<open>A position still open after the loop is closed at the last candle's close.\<close>

definition close_at_end :: "MarketData list \<Rightarrow> bt_state \<Rightarrow> bt_state" where
  "close_at_end marketData st =
     (case position st of
        None \<Rightarrow> st
      | Some pos \<Rightarrow>
          let lastCandle = marketData ! (length marketData - 1);
              pnl_unit = (if pos = long then close lastCandle - st_entryPrice st
                          else st_entryPrice st - close lastCandle);
              pnlAmount = pnl_unit * positionSize st
          in st\<lparr>capital := capital st + pnlAmount,
                st_trades := st_trades st @
                  [\<lparr>entryTime = st_entryTime st,
                    entryPrice = st_entryPrice st,
                    exitTime = timestamp lastCandle,
                    exitPrice = close lastCandle,
                    type_t = pos,
                    pnl = pnlAmount,
                    pnlPercentage =
                      (pnlAmount / (st_entryPrice st * positionSize st)) * Fin 100,
                    exitReason = ''End of Test''\<rparr>]\<rparr>)"

text \<open>\<open>ts.reduce((sum, trade) => sum + trade.pnl, 0)\<close>\<close>

definition sum_pnl :: "Trade list \<Rightarrow> jsnum" where
  "sum_pnl ts = foldl (\<lambda>sum trade. sum + pnl trade) (Fin 0) ts"

text \<open>The Sharpe ratio of an equity curve.\<close>

definition sharpe_of :: "jsnum list \<Rightarrow> jsnum" where
  "sharpe_of eq =
     (let returns = step_returns eq;
          averageReturn = js_sum returns / Fin (real (length returns));
          stdDeviation = js_sqrt
            (foldl (\<lambda>sum ret. sum + js_pow2 (ret - averageReturn)) (Fin 0) returns
               / Fin (real (length returns)))
      in if stdDeviation \<noteq> Fin 0 then (averageReturn / stdDeviation) * Fin (sqrt 252)
         else Fin 0)"

text \<open>The performance metrics and the returned object.\<close>

definition make_result ::
  "MarketData list \<Rightarrow> StrategyConfig \<Rightarrow> jsnum \<Rightarrow> bt_state \<Rightarrow> BacktestResult" where
  "make_result marketData strategy initialCap st =
     (let ts = st_trades st;
          winningTrades = filter (\<lambda>t. Fin 0 < pnl t) ts;
          losingTrades = filter (\<lambda>t. pnl t \<le> Fin 0) ts;
          total = sum_pnl ts;
          wr = Fin (real (length winningTrades)) / Fin (real (length ts));
          avgW = (if length winningTrades > 0
                  then sum_pnl winningTrades / Fin (real (length winningTrades)) else Fin 0);
          avgL = (if length losingTrades > 0
                  then sum_pnl losingTrades / Fin (real (length losingTrades)) else Fin 0);
          pf = (if avgL \<noteq> Fin 0 then \<bar>avgW / avgL\<bar> else Fin 0)
      in \<lparr>initialCapital = initialCap,
          finalCapital = capital st,
          totalPnL = total,
          totalPnLPercentage = (total / initialCap) * Fin 100,
          trades = ts,
          winRate = wr,
          averageWin = avgW,
          averageLoss = avgL,
          profitFactor = pf,
          maxDrawdown = st_maxDrawdown st,
          sharpeRatio = sharpe_of (st_equity st),
          equity = st_equity st,
          drawdowns = st_drawdowns st,
          strategyId = id_s strategy,
          strategyName = name strategy,
          startTime = timestamp (marketData ! 0),
          endTime = timestamp (marketData ! (length marketData - 1)),
          res_symbol = symbol (marketData ! 0),
          res_timeframe = timeframe (marketData ! 0)\<rparr>)"

definition runBacktest ::
  "ta_lib \<Rightarrow> MarketData list \<Rightarrow> StrategyConfig \<Rightarrow> jsnum \<Rightarrow> error + BacktestResult" where
  "runBacktest lib marketData strategy initialCap =
     (if length marketData < 50
      then Inl (Error ''Not enough data for backtesting. Need at least 50 candles.'')
      else Inr (make_result marketData strategy initialCap
                  (close_at_end marketData (run_loop lib marketData strategy initialCap))))"

section \<open>StrategyEngine: validation of candidate strategies\<close>

definition generateSignalFromIndicators :: "StrategyConfig \<Rightarrow> IndicatorMap \<Rightarrow> TradeSignal" where
  "generateSignalFromIndicators strategy ind =
     (case style strategy of
        TREND \<Rightarrow>
          if num_of (sma50 ind) < num_of (ema20 ind) then LONG
          else if num_of (ema20 ind) < num_of (sma50 ind) then SHORT
          else NEUTRAL
      | MEAN_REVERSION \<Rightarrow>
          if num_of (rsi ind) < Fin 30 then LONG
          else if Fin 70 < num_of (rsi ind) then SHORT
          else NEUTRAL
      | BREAKOUT \<Rightarrow>
          if num_of (map_option upper (donchian ind)) < num_of (price ind) then LONG
          else if num_of (price ind) < num_of (map_option lower (donchian ind)) then SHORT
          else NEUTRAL)"

record tally =
  wins :: nat
  losses :: nat
  totalProfit :: jsnum
  totalLoss :: jsnum

text \<open>One iteration of the scoring loop of \<open>backtest\<close>, at index \<open>i\<close> of the
  testing data.\<close>

definition score_step :: "ta_lib \<Rightarrow> StrategyConfig \<Rightarrow> MarketData list \<Rightarrow> tally \<Rightarrow> nat \<Rightarrow> tally" where
  "score_step lib strategy testingData st i =
     (let dataSlice = take i testingData;
          ind = calculateIndicators lib dataSlice strategy;
          sig = generateSignalFromIndicators strategy ind;
          cur = close (testingData ! i);
          nxt = close (testingData ! (i + 1))
      in if sig = LONG \<and> cur < nxt
         then st\<lparr>wins := wins st + 1, totalProfit := totalProfit st + (nxt - cur) / cur\<rparr>
         else if sig = SHORT \<and> nxt < cur
         then st\<lparr>wins := wins st + 1, totalProfit := totalProfit st + (cur - nxt) / cur\<rparr>
         else if sig \<noteq> NEUTRAL
         then st\<lparr>losses := losses st + 1, totalLoss := totalLoss st + \<bar>(nxt - cur) / cur\<bar>\<rparr>
         else st)"

text \<open>\<open>Math.floor(n * 0.7)\<close>, in exact arithmetic. (In double arithmetic the product
  can fall just below an integer, as \<open>90 * 0.7\<close> and \<open>170 * 0.7\<close> do, and the
  split is then one lower; no statement below depends on where the split falls, except through the sample
  series of 99 and 172 candles, where both agree.)\<close>

definition split_index :: "nat \<Rightarrow> nat" where
  "split_index n = nat \<lfloor>real n * 0.7\<rfloor>"

definition backtest :: "ta_lib \<Rightarrow> StrategyConfig \<Rightarrow> MarketData list \<Rightarrow> BackTestMetrics" where
  "backtest lib strategy marketData =
     (let testingData = drop (split_index (length marketData)) marketData;
          st = foldl (score_step lib strategy testingData)
                 \<lparr>wins = 0, losses = 0, totalProfit = Fin 0, totalLoss = Fin 0\<rparr>
                 [50..<length testingData - 1];
          ratio = Fin (real (wins st)) / Fin (real (wins st + losses st));
          wr = (if truthy ratio then ratio else Fin 0);
          aw = (if wins st > 0 then totalProfit st / Fin (real (wins st)) else Fin 0);
          al = (if losses st > 0 then totalLoss st / Fin (real (losses st)) else Fin 0)
      in \<lparr>bt_winRate = wr,
          expectancy = wr * aw - (Fin 1 - wr) * al,
          bt_trades = wins st + losses st,
          avgWin = aw,
          avgLoss = al\<rparr>)"

text \<open>\<open>Array.prototype.sort\<close> with a comparator, as a stable insertion sort: an
  element goes before the first element the comparator places after it.\<close>

fun insert_by :: "('a \<Rightarrow> 'a \<Rightarrow> jsnum) \<Rightarrow> 'a \<Rightarrow> 'a list \<Rightarrow> 'a list" where
  "insert_by cmp x [] = [x]"
| "insert_by cmp x (y # ys) =
     (if Fin 0 < cmp y x then x # y # ys else y # insert_by cmp x ys)"

definition js_sort :: "('a \<Rightarrow> 'a \<Rightarrow> jsnum) \<Rightarrow> 'a list \<Rightarrow> 'a list" where
  "js_sort cmp xs = foldl (\<lambda>acc x. insert_by cmp x acc) [] xs"

text \<open>\<open>s.backTestResult?.expectancy || 0\<close>\<close>

definition expectancy_or_0 :: "StrategyConfig \<Rightarrow> jsnum" where
  "expectancy_or_0 s =
     (let e = num_of (map_option expectancy (backTestResult s))
      in if truthy e then e else Fin 0)"

text \<open>The loop body of \<open>validateStrategies\<close>: keep a strategy, with its metrics
  attached, when its expectancy is positive.\<close>

definition validate_one ::
  "ta_lib \<Rightarrow> MarketData list \<Rightarrow> StrategyConfig list \<Rightarrow> StrategyConfig \<Rightarrow> StrategyConfig list" where
  "validate_one lib marketData validated strategy =
     (let r = backtest lib strategy marketData
      in if Fin 0 < expectancy r
         then validated @ [strategy\<lparr>backTestResult := Some r\<rparr>]
         else validated)"

text \<open>The function returns normally on every input (\<open>Inr\<close>): it has no
  \<open>throw\<close>, and nothing it calls throws.\<close>

definition validateStrategies ::
  "ta_lib \<Rightarrow> MarketData list \<Rightarrow> StrategyConfig list \<Rightarrow> error + StrategyConfig list" where
  "validateStrategies lib marketData strategies =
     (if length marketData < 100 then Inr strategies
      else Inr (js_sort (\<lambda>a b. expectancy_or_0 b - expectancy_or_0 a)
                  (foldl (validate_one lib marketData) [] strategies)))"

section \<open>Concrete inputs\<close>

text \<open>The predefined strategies of \<open>StrategyEngine.initializeStrategies\<close>.\<close>

definition trend_following :: StrategyConfig where
  "trend_following =
     \<lparr>id_s = ''trend-following'', name = ''Trend Following'', style = TREND,
      riskPerTrade = Fin 0.01, takeProfitRatio = Fin 2, stopLossType = SL_atr,
      ind_primary = [''ema20'', ''sma50'', ''macd''], ind_confirmation = [''adx'', ''volume''],
      suitableRegimes = [TRENDING], backTestResult = None, type_s = None\<rparr>"

definition mean_reversion :: StrategyConfig where
  "mean_reversion =
     \<lparr>id_s = ''mean-reversion'', name = ''Mean Reversion'', style = MEAN_REVERSION,
      riskPerTrade = Fin 0.01, takeProfitRatio = Fin 1.5, stopLossType = SL_percentage,
      ind_primary = [''rsi'', ''bollinger''], ind_confirmation = [''stochastic'', ''volume''],
      suitableRegimes = [RANGING], backTestResult = None, type_s = None\<rparr>"

definition breakout :: StrategyConfig where
  "breakout =
     \<lparr>id_s = ''breakout'', name = ''Breakout'', style = BREAKOUT,
      riskPerTrade = Fin 0.015, takeProfitRatio = Fin 2.5, stopLossType = SL_atr,
      ind_primary = [''donchian'', ''atr''], ind_confirmation = [''volume'', ''adx''],
      suitableRegimes = [VOLATILE, TRENDING], backTestResult = None, type_s = None\<rparr>"

text \<open>An hourly candle with the given timestamp, close, high and low; it opens at its
  close.\<close>

definition candle_of :: "real \<Rightarrow> real \<Rightarrow> real \<Rightarrow> real \<Rightarrow> MarketData" where
  "candle_of t c h l =
     \<lparr>symbol = ''BTC/USDT'', timestamp = Fin t, open_p = Fin c, high = Fin h, low = Fin l,
      close = Fin c, volume = Fin 1000, timeframe = TF_1h\<rparr>"

text \<open>A library in which every call throws: the service falls back to its defaults.\<close>

definition lib_throws :: ta_lib where
  "lib_throws =
     \<lparr>SMA_calculate = (\<lambda>_ _. None), EMA_calculate = (\<lambda>_ _. None),
      RSI_calculate = (\<lambda>_ _. None), MACD_calculate = (\<lambda>_ _ _ _. None),
      BollingerBands_calculate = (\<lambda>_ _ _. None), ATR_calculate = (\<lambda>_ _ _ _. None),
      ADX_calculate = (\<lambda>_ _ _ _. None), Stochastic_calculate = (\<lambda>_ _ _ _ _. None)\<rparr>"

text \<open>A library that reports an up-trend on every call: EMA 101 above SMA 100, a
  positive MACD histogram, ADX 30.\<close>

definition lib_up :: ta_lib where
  "lib_up =
     \<lparr>SMA_calculate = (\<lambda>_ _. Some [Fin 100]), EMA_calculate = (\<lambda>_ _. Some [Fin 101]),
      RSI_calculate = (\<lambda>_ _. Some [Fin 50]),
      MACD_calculate = (\<lambda>_ _ _ _. Some [\<lparr>MACD = Fin 2, signal = Fin 1, histogram = Fin 1\<rparr>]),
      BollingerBands_calculate = (\<lambda>_ _ _. None), ATR_calculate = (\<lambda>_ _ _ _. None),
      ADX_calculate = (\<lambda>_ _ _ _. Some [Fin 30]), Stochastic_calculate = (\<lambda>_ _ _ _ _. None)\<rparr>"

text \<open>\<open>n\<close> hourly candles closing at 100 in the range 99 to 101.\<close>

definition flat_series :: "nat \<Rightarrow> MarketData list" where
  "flat_series n = map (\<lambda>i. candle_of (real i) 100 101 99) [0..<n]"

text \<open>51 such candles, then two candles closing at 110.\<close>

definition tp_series :: "MarketData list" where
  "tp_series = flat_series 51 @ [candle_of 51 110 111 109, candle_of 52 110 111 109]"

text \<open>50 such candles, then a candle whose high, low and close are all 100, then one
  more candle.\<close>

definition doji_series :: "MarketData list" where
  "doji_series = flat_series 50 @ [candle_of 50 100 100 100, candle_of 51 100 101 99]"

text \<open>51 such candles, then two candles closing at 90.\<close>

definition sl_series :: "MarketData list" where
  "sl_series = flat_series 51 @ [candle_of 51 90 91 89, candle_of 52 90 91 89]"

text \<open>\<open>n\<close> candles, each closing 1 above the one before.\<close>

definition rising_series :: "nat \<Rightarrow> MarketData list" where
  "rising_series n =
     map (\<lambda>i. candle_of (real i) (100 + real i) (101 + real i) (99 + real i)) [0..<n]"

text \<open>Indicator objects of the TREND style: an up-trend; and the same with the SMA at
  0, the value \<open>calculateSMA\<close> substitutes when the library gives no result.\<close>

definition ind_trend_up :: IndicatorMap where
  "ind_trend_up = no_indicators
     \<lparr>sma50 := Some (Fin 100), ema20 := Some (Fin 101), adx := Some (Fin 30),
      macd := Some \<lparr>line = Fin 2, macd_signal = Fin 1, macd_histogram = Fin 1\<rparr>\<rparr>"

definition ind_sma_failed :: IndicatorMap where
  "ind_sma_failed = ind_trend_up\<lparr>sma50 := Some (Fin 0)\<rparr>"

text \<open>An indicator object of the MEAN_REVERSION style with an RSI of 0, the value of
  the index after an unbroken run of falling closes.\<close>

definition ind_rsi_zero :: IndicatorMap where
  "ind_rsi_zero = no_indicators
     \<lparr>bollinger := Some \<lparr>upper = Fin 110, middle = Fin 100, lower = Fin 90\<rparr>,
      rsi := Some (Fin 0),
      stochastic := Some \<lparr>stoch_k = Fin 5, stoch_d = Fin 10\<rparr>\<rparr>"

text \<open>An indicator object of the BREAKOUT style whose Donchian channel is crossed: the
  upper band lies below the lower band.\<close>

definition ind_crossed :: IndicatorMap where
  "ind_crossed = no_indicators
     \<lparr>atr := Some (Fin 1),
      donchian := Some \<lparr>upper = Fin 5, middle = Fin 12.5, lower = Fin 20\<rparr>,
      volumeChange := Some (Fin 30)\<rparr>"

text \<open>The close of the last candle of a series, \<open>data[data.length - 1].close\<close>:
  there is none when the series is empty.\<close>

definition last_close :: "MarketData list \<Rightarrow> jsnum option" where
  "last_close data = (if data = [] then None else Some (close (last data)))"

section \<open>The signal rules as the specification words them\<close>

text \<open>
  The rule table of the specification, for comparison with \<open>generateSignal\<close>: LONG
  if the long condition holds, SHORT if the short condition holds, NEUTRAL otherwise. A
  comparison on an indicator that is absent is false.
\<close>

definition spec_signal :: "MarketData \<Rightarrow> IndicatorMap \<Rightarrow> Style \<Rightarrow> TradeSignal" where
  "spec_signal candle ind sty =
     (case sty of
        TREND \<Rightarrow>
          if num_of (sma50 ind) < num_of (ema20 ind)
             \<and> Fin 0 < num_of (map_option macd_histogram (macd ind))
             \<and> Fin 25 < num_of (adx ind)
          then LONG
          else if num_of (ema20 ind) < num_of (sma50 ind)
             \<and> num_of (map_option macd_histogram (macd ind)) < Fin 0
             \<and> Fin 25 < num_of (adx ind)
          then SHORT
          else NEUTRAL
      | MEAN_REVERSION \<Rightarrow>
          if num_of (rsi ind) < Fin 30
             \<and> close candle < num_of (map_option lower (bollinger ind)) * Fin 1.01
          then LONG
          else if Fin 70 < num_of (rsi ind)
             \<and> num_of (map_option upper (bollinger ind)) * Fin 0.99 < close candle
          then SHORT
          else NEUTRAL
      | BREAKOUT \<Rightarrow>
          if num_of (map_option upper (donchian ind)) < close candle
             \<and> Fin 20 < num_of (volumeChange ind)
          then LONG
          else if close candle < num_of (map_option lower (donchian ind))
             \<and> Fin 20 < num_of (volumeChange ind)
          then SHORT
          else NEUTRAL)"

section \<open>Predicates used in the statements and proofs\<close>

text \<open>Consecutive trades do not overlap in time.\<close>

definition no_overlap :: "Trade list \<Rightarrow> bool" where
  "no_overlap ts = (\<forall>i. Suc i < length ts \<longrightarrow> exitTime (ts ! i) \<le> entryTime (ts ! Suc i))"

text \<open>The loop invariant behind it, before candle \<open>i\<close>: the last exit and an open
  position's entry happened on earlier candles, in that order.\<close>

definition timeline :: "MarketData list \<Rightarrow> nat \<Rightarrow> bt_state \<Rightarrow> bool" where
  "timeline md i st =
     (no_overlap (st_trades st)
      \<and> (st_trades st \<noteq> [] \<longrightarrow>
           (\<exists>b<i. exitTime (last (st_trades st)) = timestamp (md ! b)))
      \<and> (position st \<noteq> None \<longrightarrow>
           (\<exists>a<i. st_entryTime st = timestamp (md ! a))
           \<and> (st_trades st \<noteq> [] \<longrightarrow> exitTime (last (st_trades st)) \<le> st_entryTime st)))"

text \<open>Capital is the initial capital plus the profit and loss of the recorded trades.\<close>

definition conserved :: "jsnum \<Rightarrow> bt_state \<Rightarrow> bool" where
  "conserved ic st = (capital st = ic + sum_pnl (st_trades st))"

text \<open>The conservation property of a result, as the program would test it:
  \<open>finalCapital == initialCapital + trades.reduce((sum, t) => sum + t.pnl, 0)\<close>.\<close>

definition conserves_capital :: "BacktestResult \<Rightarrow> bool" where
  "conserves_capital r = js_eq (finalCapital r) (initialCapital r + sum_pnl (trades r))"

text \<open>The drawdown bound on two parallel arrays: every drawdown is between 0 and 100,
  and it is 0 where the equity equals the running maximum of the equity so far.\<close>

definition drawdown_bound :: "jsnum list \<Rightarrow> jsnum list \<Rightarrow> bool" where
  "drawdown_bound eq dd =
     (length dd = length eq
      \<and> (\<forall>i<length eq. Fin 0 \<le> dd ! i \<and> dd ! i \<le> Fin 100
            \<and> (eq ! i = js_max_list (take (Suc i) eq) \<longrightarrow> dd ! i = Fin 0)))"

text \<open>The levels of an open position of size \<open>z\<close>, entered at \<open>e\<close> with stop
  \<open>sl\<close> and target \<open>tp\<close>: the stop is on the losing side, the target on the
  winning side, and the loss at the stop is at most the capital \<open>cap\<close>.\<close>

definition levels_ok :: "Side \<Rightarrow> real \<Rightarrow> real \<Rightarrow> real \<Rightarrow> real \<Rightarrow> real \<Rightarrow> bool" where
  "levels_ok pos cap e sl tp z =
     (0 \<le> z \<and> (case pos of
                  long \<Rightarrow> sl \<le> e \<and> e \<le> tp \<and> (e - sl) * z \<le> cap
                | short \<Rightarrow> e \<le> sl \<and> tp \<le> e \<and> (sl - e) * z \<le> cap))"

text \<open>Capital is finite and not negative, the peak is finite and positive, and an open
  position has finite levels that are in order.\<close>

definition solvent :: "bt_state \<Rightarrow> bool" where
  "solvent st =
     (\<exists>cap mx. capital st = Fin cap \<and> 0 \<le> cap \<and> maxEquity st = Fin mx \<and> 0 < mx
        \<and> (\<forall>pos. position st = Some pos \<longrightarrow>
              (\<exists>e sl tp z. st_entryPrice st = Fin e \<and> stopLoss st = Fin sl
                 \<and> takeProfit st = Fin tp \<and> positionSize st = Fin z
                 \<and> levels_ok pos cap e sl tp z)))"

text \<open>The loop invariant of the equity curve: solvency, the drawdown bound so far, and
  the peak being the maximum of the curve.\<close>

definition tracked :: "bt_state \<Rightarrow> bool" where
  "tracked st = (solvent st \<and> drawdown_bound (st_equity st) (st_drawdowns st)
     \<and> maxEquity st = js_max_list (st_equity st))"

text \<open>Before candle \<open>i\<close>: a position of infinite size, entered on the candle
  before at its close, with stop and target at the entry price; or the aftermath: capital
  is NaN, and so is the profit of the first trade.\<close>

definition degenerate :: "MarketData list \<Rightarrow> nat \<Rightarrow> bt_state \<Rightarrow> bool" where
  "degenerate md i st =
     ((\<exists>pos p. position st = Some pos \<and> positionSize st = PInf \<and> st_entryPrice st = Fin p
          \<and> stopLoss st = Fin p \<and> takeProfit st = Fin p \<and> st_trades st = []
          \<and> 0 < i \<and> close (md ! (i - 1)) = Fin p)
      \<or> (capital st = NaN \<and> st_trades st \<noteq> [] \<and> pnl (hd (st_trades st)) = NaN))"

section \<open>Facts about the number model\<close>

lemma Fin_minus [simp]: "Fin a - Fin b = Fin (a - b)"
  by (simp add: minus_jsnum_def)

lemma js_NaN_absorb [simp]:
  "a + NaN = NaN" "a - NaN = NaN" "NaN - a = NaN" "a * NaN = NaN" "a / NaN = NaN"
  by (cases a; simp add: minus_jsnum_def)+

lemma js_add_assoc: "(a + b) + c = a + (b + (c::jsnum))"
  by (cases a; cases b; cases c) simp_all

lemma js_add_zero [simp]: "a + Fin 0 = a" "Fin 0 + a = a"
  by (cases a; simp)+

lemma js_less_imp_le: "(a::jsnum) < b \<Longrightarrow> a \<le> b"
  by (cases a; cases b) simp_all

lemma js_max_list_snoc: "js_max_list (xs @ [x]) = js_max (js_max_list xs) x"
  by (simp add: js_max_list_def)

section \<open>A loop over an index range keeps its invariant\<close>

lemma foldl_upt_invariant:
  assumes "P a st" and "a \<le> b"
    and "\<And>i st. a \<le> i \<Longrightarrow> i < b \<Longrightarrow> P i st \<Longrightarrow> P (Suc i) (f st i)"
  shows "P b (foldl f st [a..<b])"
  using assms(2,3)
proof (induction b)
  case 0
  with assms(1) show ?case by simp
next
  case (Suc b)
  show ?case
  proof (cases "a = Suc b")
    case True
    with assms(1) show ?thesis by simp
  next
    case False
    with Suc.prems have le: "a \<le> b" by simp
    have "P b (foldl f st [a..<b])"
      using le Suc.prems(2) by (intro Suc.IH) auto
    then have "P (Suc b) (f (foldl f st [a..<b]) b)"
      using le by (intro Suc.prems(2)) auto
    with le show ?thesis by simp
  qed
qed

lemma ex_less_Suc: "\<exists>b<i. P b \<Longrightarrow> \<exists>b<Suc i. P b"
  by (auto intro: less_SucI)

section \<open>Signals under the sample libraries\<close>

lemma atr_absent:
  "style s \<noteq> BREAKOUT \<Longrightarrow> atr (calculateIndicators lib xs s) = None"
  by (simp add: calculateIndicators_def Let_def no_indicators_def)

lemma atr_value_no_breakout:
  "style s \<noteq> BREAKOUT \<Longrightarrow> atr_value (indicators_at lib md s i) c = high c - low c"
  by (simp add: atr_value_def indicators_at_def atr_absent truthy_def num_of_def)

lemma signal_up:
  "style s = TREND \<Longrightarrow> 49 \<le> i \<Longrightarrow> i < length md \<Longrightarrow> signal_at lib_up md s i = LONG"
  by (simp add: signal_at_def indicators_at_def calculateIndicators_def generateSignal_def
      generateTrendSignal_def lib_up_def calculateSMA_def calculateEMA_def calculateADX_def
      calculateMACD_def last_or_def Let_def truthy_def num_of_def no_indicators_def)

lemma signal_throws: "signal_at lib_throws md s i = NEUTRAL"
  by (cases "style s")
     (simp_all add: signal_at_def indicators_at_def calculateIndicators_def generateSignal_def
      generateTrendSignal_def generateMeanReversionSignal_def generateBreakoutSignal_def
      lib_throws_def calculateSMA_def calculateEMA_def calculateRSI_def
      calculateVolumeChange_def last_or_def Let_def truthy_def num_of_def no_indicators_def)

lemma signal_from_up_trend:
  "style s = TREND \<Longrightarrow> 50 \<le> length xs \<Longrightarrow>
   generateSignalFromIndicators s (calculateIndicators lib_up xs s) = LONG"
  by (simp add: calculateIndicators_def generateSignalFromIndicators_def lib_up_def
      calculateSMA_def calculateEMA_def last_or_def Let_def num_of_def no_indicators_def)

lemma signal_from_up_mean:
  "style s = MEAN_REVERSION \<Longrightarrow> 50 \<le> length xs \<Longrightarrow>
   generateSignalFromIndicators s (calculateIndicators lib_up xs s) = NEUTRAL"
  by (simp add: calculateIndicators_def generateSignalFromIndicators_def lib_up_def
      calculateRSI_def last_or_def Let_def num_of_def no_indicators_def)

lemma process_candle_neutral:
  "position st = None \<Longrightarrow> signal_at lib md s i = NEUTRAL \<Longrightarrow>
   process_candle lib md s st i = update_equity st"
  by (simp add: process_candle_def process_signal_def)

lemma style_samples [simp]:
  "style trend_following = TREND" "style mean_reversion = MEAN_REVERSION"
  by (simp_all add: trend_following_def mean_reversion_def)

section \<open>The sample runs, evaluated\<close>

lemma tp_series_nth:
  "length tp_series = 53"
  "tp_series ! 50 = candle_of 50 100 101 99"
  "tp_series ! 51 = candle_of 51 110 111 109"
  "tp_series ! 52 = candle_of 52 110 111 109"
  by (simp_all add: tp_series_def flat_series_def nth_append)

lemma sl_series_nth:
  "length sl_series = 53"
  "sl_series ! 50 = candle_of 50 100 101 99"
  "sl_series ! 51 = candle_of 51 90 91 89"
  "sl_series ! 52 = candle_of 52 90 91 89"
  by (simp_all add: sl_series_def flat_series_def nth_append)

lemma doji_series_nth:
  "length doji_series = 52"
  "doji_series ! 50 = candle_of 50 100 100 100"
  "doji_series ! 51 = candle_of 51 100 101 99"
  by (simp_all add: doji_series_def flat_series_def nth_append)

lemmas step_simps =
  process_candle_def process_signal_def enter_position_def check_exit_def exit_decision_def
  exit_price_def update_equity_def atr_value_no_breakout candle_of_def Let_def

lemma tp_run:
  "close_at_end tp_series (run_loop lib_up tp_series trend_following (Fin 10000)) =
     \<lparr>st_trades =
        [\<lparr>entryTime = Fin 50, entryPrice = Fin 100, exitTime = Fin 51, exitPrice = Fin 108,
          type_t = long, pnl = Fin 200, pnlPercentage = Fin 8, exitReason = ''Take Profit''\<rparr>,
         \<lparr>entryTime = Fin 52, entryPrice = Fin 110, exitTime = Fin 52, exitPrice = Fin 110,
          type_t = long, pnl = Fin 0, pnlPercentage = Fin 0, exitReason = ''End of Test''\<rparr>],
      capital = Fin 10200, position = Some long, st_entryPrice = Fin 110,
      st_entryTime = Fin 52, positionSize = Fin (51 / 2), stopLoss = Fin 106,
      takeProfit = Fin 118, st_equity = [Fin 10000, Fin 10000, Fin 10200, Fin 10200],
      st_drawdowns = [Fin 0, Fin 0, Fin 0, Fin 0], maxEquity = Fin 10200,
      st_maxDrawdown = Fin 0\<rparr>"
  by (simp add: run_loop_def tp_series_nth upt_rec [of 50] upt_rec [of 51] upt_rec [of 52]
      upt_rec [of 53] signal_up step_simps init_state_def close_at_end_def
      trend_following_def)

lemma sl_run:
  "close_at_end sl_series (run_loop lib_up sl_series trend_following (Fin 10000)) =
     \<lparr>st_trades =
        [\<lparr>entryTime = Fin 50, entryPrice = Fin 100, exitTime = Fin 51, exitPrice = Fin 96,
          type_t = long, pnl = Fin (- 100), pnlPercentage = Fin (- 4),
          exitReason = ''Stop Loss''\<rparr>,
         \<lparr>entryTime = Fin 52, entryPrice = Fin 90, exitTime = Fin 52, exitPrice = Fin 90,
          type_t = long, pnl = Fin 0, pnlPercentage = Fin 0, exitReason = ''End of Test''\<rparr>],
      capital = Fin 9900, position = Some long, st_entryPrice = Fin 90,
      st_entryTime = Fin 52, positionSize = Fin (99 / 4), stopLoss = Fin 86,
      takeProfit = Fin 98, st_equity = [Fin 10000, Fin 10000, Fin 9900, Fin 9900],
      st_drawdowns = [Fin 0, Fin 0, Fin 1, Fin 1], maxEquity = Fin 10000,
      st_maxDrawdown = Fin 1\<rparr>"
  by (simp add: run_loop_def sl_series_nth upt_rec [of 50] upt_rec [of 51] upt_rec [of 52]
      upt_rec [of 53] signal_up step_simps init_state_def close_at_end_def
      trend_following_def)

lemma doji_run:
  "close_at_end doji_series (run_loop lib_up doji_series trend_following (Fin 10000)) =
     \<lparr>st_trades =
        [\<lparr>entryTime = Fin 50, entryPrice = Fin 100, exitTime = Fin 51, exitPrice = Fin 100,
          type_t = long, pnl = NaN, pnlPercentage = NaN, exitReason = ''Stop Loss''\<rparr>],
      capital = NaN, position = None, st_entryPrice = Fin 0, st_entryTime = Fin 0,
      positionSize = Fin 0, stopLoss = Fin 0, takeProfit = Fin 0,
      st_equity = [Fin 10000, Fin 10000, NaN], st_drawdowns = [Fin 0, Fin 0, NaN],
      maxEquity = NaN, st_maxDrawdown = NaN\<rparr>"
  by (simp add: run_loop_def doji_series_nth upt_rec [of 50] upt_rec [of 51] upt_rec [of 52]
      signal_up step_simps init_state_def close_at_end_def trend_following_def)

lemma flat_run:
  "close_at_end (flat_series 51) (run_loop lib_throws (flat_series 51) s (Fin 10000)) =
     \<lparr>st_trades = [], capital = Fin 10000, position = None, st_entryPrice = Fin 0,
      st_entryTime = Fin 0, positionSize = Fin 0, stopLoss = Fin 0, takeProfit = Fin 0,
      st_equity = [Fin 10000, Fin 10000], st_drawdowns = [Fin 0, Fin 0],
      maxEquity = Fin 10000, st_maxDrawdown = Fin 0\<rparr>"
  by (simp add: run_loop_def flat_series_def upt_rec [of 50] upt_rec [of 51]
      signal_throws process_candle_neutral update_equity_def Let_def init_state_def
      close_at_end_def)

lemma flat_run_50:
  "close_at_end (flat_series 50) (run_loop lib (flat_series 50) s (Fin 10000)) =
     init_state (Fin 10000)"
  by (simp add: run_loop_def flat_series_def init_state_def close_at_end_def)

lemma flat_run_no_capital:
  "close_at_end (flat_series 51) (run_loop lib_throws (flat_series 51) s (Fin 0)) =
     \<lparr>st_trades = [], capital = Fin 0, position = None, st_entryPrice = Fin 0,
      st_entryTime = Fin 0, positionSize = Fin 0, stopLoss = Fin 0, takeProfit = Fin 0,
      st_equity = [Fin 0, Fin 0], st_drawdowns = [Fin 0, NaN],
      maxEquity = Fin 0, st_maxDrawdown = NaN\<rparr>"
  by (simp add: run_loop_def flat_series_def upt_rec [of 50] upt_rec [of 51]
      signal_throws process_candle_neutral update_equity_def Let_def init_state_def
      close_at_end_def)

lemma sharpe_flat: "sharpe_of [Fin 10000, Fin 10000] = Fin 0"
  by (simp add: sharpe_of_def step_returns_def js_sum_def js_pow2_def Let_def
      upt_rec [of 1] upt_rec [of 2])

lemma sharpe_single: "sharpe_of [Fin 10000] = NaN"
  by (simp add: sharpe_of_def step_returns_def js_sum_def js_pow2_def Let_def)

lemma finite_closes:
  "\<forall>i<length tp_series. \<exists>p. close (tp_series ! i) = Fin p"
  "\<forall>i<length sl_series. \<exists>p. close (sl_series ! i) = Fin p"
  "\<forall>i<length doji_series. \<exists>p. close (doji_series ! i) = Fin p"
  by (auto simp: tp_series_def sl_series_def doji_series_def flat_series_def candle_of_def
      nth_append nth_Cons split: nat.splits)

lemma sl_series_range:
  "i < length sl_series \<Longrightarrow> high (sl_series ! i) - low (sl_series ! i) = Fin 2"
  by (auto simp: sl_series_def flat_series_def candle_of_def nth_append nth_Cons
      split: nat.splits)

lemma tp_series_timestamp: "i < length tp_series \<Longrightarrow> timestamp (tp_series ! i) = Fin (real i)"
  by (auto simp: tp_series_def flat_series_def candle_of_def nth_append nth_Cons
      split: nat.splits)

lemma tp_series_increasing: "sorted_wrt (<) (map timestamp tp_series)"
  by (simp add: sorted_wrt_iff_nth_less tp_series_timestamp)

section \<open>Results of a run\<close>

lemma run_result:
  "50 \<le> length md \<Longrightarrow>
   runBacktest lib md s ic = Inr (make_result md s ic (close_at_end md (run_loop lib md s ic)))"
  by (simp add: runBacktest_def)

lemma run_result_iff:
  "runBacktest lib md s ic = Inr r \<longleftrightarrow>
   50 \<le> length md \<and> r = make_result md s ic (close_at_end md (run_loop lib md s ic))"
  by (auto simp: runBacktest_def)

lemma make_result_fields [simp]:
  "trades (make_result md s ic st) = st_trades st"
  "finalCapital (make_result md s ic st) = capital st"
  "initialCapital (make_result md s ic st) = ic"
  "totalPnL (make_result md s ic st) = sum_pnl (st_trades st)"
  "equity (make_result md s ic st) = st_equity st"
  "drawdowns (make_result md s ic st) = st_drawdowns st"
  "sharpeRatio (make_result md s ic st) = sharpe_of (st_equity st)"
  by (simp_all add: make_result_def Let_def)

lemma make_result_no_trades:
  "st_trades st = [] \<Longrightarrow> winRate (make_result md s ic st) = NaN"
  "st_trades st = [] \<Longrightarrow> profitFactor (make_result md s ic st) = Fin 0"
  by (simp_all add: make_result_def Let_def)

section \<open>Divide-by-zero safety (C1)\<close>

lemma no_trades_win_rate:
  "runBacktest lib md s ic = Inr r \<Longrightarrow> trades r = [] \<Longrightarrow>
   winRate r = NaN \<and> profitFactor r = Fin 0"
  by (auto simp: run_result_iff make_result_no_trades)

text \<open>
  Claim C1 says that a run recording zero trades returns a win rate, a profit factor and a
  Sharpe ratio of 0, never NaN. The code guards the profit factor and the Sharpe ratio
  but divides the number of winning trades by the number of trades without a guard. On 51
  flat candles, with a library whose every call throws (no signal ever fires), the run
  records no trade and returns the win rate \<open>0 / 0\<close>, which is NaN; the profit factor
  and the Sharpe ratio are 0. On exactly 50 candles the loop does not run, the list of
  returns is empty, and the Sharpe ratio is NaN as well.
\<close>

theorem zero_trades_win_rate_is_NaN:
  "(\<exists>r. runBacktest lib_throws (flat_series 51) trend_following (Fin 10000) = Inr r
       \<and> trades r = [] \<and> winRate r = NaN \<and> profitFactor r = Fin 0 \<and> sharpeRatio r = Fin 0)
   \<and> (\<exists>r. runBacktest lib_throws (flat_series 50) trend_following (Fin 10000) = Inr r
       \<and> trades r = [] \<and> winRate r = NaN \<and> profitFactor r = Fin 0 \<and> sharpeRatio r = NaN)"
proof -
  have "length (flat_series 51) = 51" "length (flat_series 50) = 50"
    by (simp_all add: flat_series_def)
  then show ?thesis
    by (simp add: run_result flat_run flat_run_50 make_result_no_trades init_state_def
        sharpe_flat sharpe_single)
qed

section \<open>Insufficient data (C3)\<close>

text \<open>
  Claim C3, as amended: whenever the series has fewer than 50 candles, \<open>runBacktest\<close>
  raises its not-enough-data error before doing anything else, while the validator raises
  nothing: it returns the candidate list unchanged (it does so for every series shorter
  than 100 candles).
\<close>

theorem insufficient_data:
  "length marketData < 50 \<Longrightarrow>
   runBacktest lib marketData strategy initialCap =
     Inl (Error ''Not enough data for backtesting. Need at least 50 candles.'') \<and>
   validateStrategies lib marketData strategies = Inr strategies"
  by (simp add: runBacktest_def validateStrategies_def)

theorem insufficient_data_witness:
  "length (flat_series 49) < 50 \<and>
   runBacktest lib_throws (flat_series 49) trend_following (Fin 10000) =
     Inl (Error ''Not enough data for backtesting. Need at least 50 candles.'') \<and>
   validateStrategies lib_throws (flat_series 49) [trend_following] = Inr [trend_following]"
proof -
  have short: "length (flat_series 49) < 50" by (simp add: flat_series_def)
  from insufficient_data [OF short] short show ?thesis by simp
qed

text \<open>The claim as stated fails: on 49 candles the validator returns normally.\<close>

theorem validate_does_not_raise_counterexample:
  "length (flat_series 49) < 50 \<and>
   validateStrategies lib_up (flat_series 49) [trend_following, mean_reversion] =
     Inr [trend_following, mean_reversion] \<and>
   \<not> isl (validateStrategies lib_up (flat_series 49) [trend_following, mean_reversion])"
  by (simp add: validateStrategies_def flat_series_def)

section \<open>Capital conservation (C4)\<close>

lemma sum_pnl_snoc: "sum_pnl (ts @ [t]) = sum_pnl ts + pnl t"
  by (simp add: sum_pnl_def)

lemma conserved_init: "conserved ic (init_state ic)"
  by (simp add: conserved_def init_state_def sum_pnl_def)

lemma conserved_process_signal:
  "conserved ic st \<Longrightarrow> conserved ic (process_signal s c ind sig st)"
  by (auto simp: conserved_def process_signal_def enter_position_def check_exit_def Let_def
      sum_pnl_snoc js_add_assoc split: option.splits)

lemma conserved_update_equity: "conserved ic st \<Longrightarrow> conserved ic (update_equity st)"
  by (simp add: conserved_def update_equity_def Let_def)

lemma conserved_close_at_end: "conserved ic st \<Longrightarrow> conserved ic (close_at_end md st)"
  by (auto simp: conserved_def close_at_end_def Let_def sum_pnl_snoc js_add_assoc
      split: option.splits)

lemma conserved_run_loop: "conserved ic (run_loop lib md s ic)"
proof -
  have "conserved ic (foldl (process_candle lib md s) st xs)" if "conserved ic st" for st xs
    using that
    by (induction xs arbitrary: st)
       (simp_all add: process_candle_def conserved_update_equity conserved_process_signal)
  then show ?thesis by (simp add: run_loop_def conserved_init)
qed

lemma capital_is_sum:
  assumes "runBacktest lib md s ic = Inr r"
  shows "finalCapital r = ic + sum_pnl (trades r)
         \<and> initialCapital r = ic \<and> totalPnL r = sum_pnl (trades r)"
proof -
  let ?st = "close_at_end md (run_loop lib md s ic)"
  from assms have r: "r = make_result md s ic ?st"
    by (simp add: run_result_iff)
  have "conserved ic ?st"
    by (intro conserved_close_at_end conserved_run_loop)
  then show ?thesis
    by (simp add: r conserved_def)
qed

text \<open>
  Claim C4, as amended: for every run of \<open>runBacktest\<close> that returns with a final capital
  that is not NaN, \<open>finalCapital == initialCapital + sum of pnl over all recorded trades\<close>
  holds (the forced End-of-Test close included), under exact arithmetic. The sum is the
  one the code computes for \<open>totalPnL\<close>, and \<open>==\<close> is JavaScript's comparison, which
  is false on NaN.
\<close>

theorem capital_conservation:
  assumes "runBacktest lib marketData strategy initialCap = Inr r"
    and "finalCapital r \<noteq> NaN"
  shows "js_eq (finalCapital r) (initialCapital r + sum_pnl (trades r))
         \<and> initialCapital r = initialCap \<and> totalPnL r = sum_pnl (trades r)"
  using capital_is_sum [OF assms(1)] assms(2) by (simp add: js_eq_def)

theorem capital_conservation_witness:
  "\<exists>r. runBacktest lib_up tp_series trend_following (Fin 10000) = Inr r
      \<and> map pnl (trades r) = [Fin 200, Fin 0]
      \<and> map exitReason (trades r) = [''Take Profit'', ''End of Test'']
      \<and> finalCapital r = Fin 10200
      \<and> initialCapital r + sum_pnl (trades r) = Fin 10200
      \<and> js_eq (finalCapital r) (initialCapital r + sum_pnl (trades r))"
proof -
  let ?r = "make_result tp_series trend_following (Fin 10000)
    (close_at_end tp_series (run_loop lib_up tp_series trend_following (Fin 10000)))"
  have run: "runBacktest lib_up tp_series trend_following (Fin 10000) = Inr ?r"
    by (simp add: run_result tp_series_nth)
  have fin: "finalCapital ?r \<noteq> NaN" by (simp add: tp_run)
  from capital_conservation [OF run fin]
  have "js_eq (finalCapital ?r) (initialCapital ?r + sum_pnl (trades ?r))" by simp
  with run show ?thesis by (simp add: tp_run sum_pnl_def)
qed

text \<open>
  The claim as stated fails on a completed run whose capital turned NaN. On the series
  with a candle whose high equals its low, the trend-following run enters a position of
  infinite size, returns with a final capital of NaN and a profit sum of NaN, and
  \<open>NaN == 10000 + NaN\<close> is false.
\<close>

theorem capital_conservation_counterexample:
  "map_sum id finalCapital (runBacktest lib_up doji_series trend_following (Fin 10000)) = Inr NaN
   \<and> map_sum id initialCapital (runBacktest lib_up doji_series trend_following (Fin 10000))
       = Inr (Fin 10000)
   \<and> map_sum id totalPnL (runBacktest lib_up doji_series trend_following (Fin 10000)) = Inr NaN
   \<and> map_sum id conserves_capital (runBacktest lib_up doji_series trend_following (Fin 10000))
       = Inr False
   \<and> \<not> js_eq NaN (Fin 10000 + NaN)"
proof -
  have "length doji_series = 52" by (simp add: doji_series_nth)
  then show ?thesis
    by (simp add: run_result doji_run conserves_capital_def js_eq_def sum_pnl_def)
qed

section \<open>The equity curve (C6)\<close>

lemma equity_foldl:
  assumes "st_equity st \<noteq> []"
  shows "st_equity (foldl (process_candle lib md s) st xs) ! 0 = st_equity st ! 0
   \<and> length (st_equity (foldl (process_candle lib md s) st xs)) = length (st_equity st) + length xs"
  using assms
proof (induction xs arbitrary: st)
  case Nil
  then show ?case by simp
next
  case (Cons x xs)
  let ?st' = "process_candle lib md s st x"
  have eq: "st_equity ?st' = st_equity st @ [capital (process_signal s (md ! x)
      (indicators_at lib md s x) (signal_at lib md s x) st)]"
    by (auto simp: process_candle_def update_equity_def Let_def process_signal_def
        enter_position_def check_exit_def split: option.splits)
  then have "st_equity ?st' \<noteq> []" by simp
  from Cons.IH [OF this] eq Cons.prems show ?case
    by (simp add: nth_append)
qed

lemma equity_close_at_end: "st_equity (close_at_end md st) = st_equity st"
  by (simp add: close_at_end_def Let_def split: option.splits)

text \<open>
  Claim C6: for every series of \<open>n \<ge> 50\<close> candles, \<open>runBacktest\<close> returns, the equity
  array has exactly \<open>n - 50 + 1\<close> entries, and its first entry is the initial capital.
\<close>

theorem equity_length:
  assumes "50 \<le> length marketData"
  shows "\<exists>r. runBacktest lib marketData strategy initialCap = Inr r
           \<and> length (equity r) = length marketData - 50 + 1
           \<and> equity r ! 0 = initialCap"
proof -
  have "st_equity (init_state initialCap) \<noteq> []" by (simp add: init_state_def)
  from equity_foldl [OF this, of lib marketData strategy "[50..<length marketData]"] assms
  show ?thesis
    by (simp add: run_result equity_close_at_end run_loop_def init_state_def)
qed

theorem equity_length_witness:
  "50 \<le> length sl_series
   \<and> (\<exists>r. runBacktest lib_up sl_series trend_following (Fin 10000) = Inr r
        \<and> equity r = [Fin 10000, Fin 10000, Fin 9900, Fin 9900]
        \<and> length (equity r) = length sl_series - 50 + 1
        \<and> equity r ! 0 = Fin 10000)"
proof -
  have n: "50 \<le> length sl_series" by (simp add: sl_series_nth)
  from equity_length [OF n, of lib_up trend_following "Fin 10000"] obtain r
    where r: "runBacktest lib_up sl_series trend_following (Fin 10000) = Inr r"
      "length (equity r) = length sl_series - 50 + 1" "equity r ! 0 = Fin 10000"
    by blast
  from r(1) have "equity r = [Fin 10000, Fin 10000, Fin 9900, Fin 9900]"
    by (simp add: run_result_iff sl_run)
  with n r show ?thesis by blast
qed

section \<open>The single-position invariant (C7)\<close>

lemma no_overlap_snoc:
  assumes "no_overlap ts" and "ts \<noteq> [] \<Longrightarrow> exitTime (last ts) \<le> entryTime t"
  shows "no_overlap (ts @ [t])"
  unfolding no_overlap_def
proof (intro allI impI)
  fix i assume i: "Suc i < length (ts @ [t])"
  show "exitTime ((ts @ [t]) ! i) \<le> entryTime ((ts @ [t]) ! Suc i)"
  proof (cases "Suc i < length ts")
    case True
    with assms(1) show ?thesis by (simp add: no_overlap_def nth_append)
  next
    case False
    with i have eq: "Suc i = length ts" by simp
    then have ne: "ts \<noteq> []" by auto
    from eq have "i = length ts - 1" by simp
    with ne have "ts ! i = last ts" by (simp add: last_conv_nth)
    with ne show ?thesis using assms(2) eq by (simp add: nth_append)
  qed
qed

lemma timeline_init: "timeline md i (init_state ic)"
  by (simp add: timeline_def init_state_def no_overlap_def)

lemma timeline_update_equity: "timeline md i (update_equity st) = timeline md i st"
  by (simp add: timeline_def update_equity_def Let_def)

lemma timeline_step:
  assumes inv: "timeline md i st" and i: "i < length md"
    and ts: "sorted_wrt (<) (map timestamp md)"
  shows "timeline md (Suc i) (process_candle lib md s st i)"
proof -
  have earlier: "timestamp (md ! b) \<le> timestamp (md ! i)" if "b < i" for b
  proof -
    from ts that i have "map timestamp md ! b < map timestamp md ! i"
      by (intro sorted_wrt_nth_less) auto
    with that i show ?thesis by (simp add: js_less_imp_le)
  qed
  let ?sig = "signal_at lib md s i" and ?ind = "indicators_at lib md s i"
  have "timeline md (Suc i) (process_signal s (md ! i) ?ind ?sig st)"
  proof (cases "position st")
    case None
    show ?thesis
    proof (cases "?sig = LONG \<or> ?sig = SHORT")
      case True
      let ?st' = "enter_position s (md ! i) ?ind ?sig st"
      have fields: "st_trades ?st' = st_trades st" "st_entryTime ?st' = timestamp (md ! i)"
        by (simp_all add: enter_position_def Let_def)
      have last_exit: "\<exists>b<i. exitTime (last (st_trades st)) = timestamp (md ! b)"
        if "st_trades st \<noteq> []"
        using inv that by (simp add: timeline_def)
      have "no_overlap (st_trades st)"
        using inv by (simp add: timeline_def)
      moreover have "\<exists>b<Suc i. exitTime (last (st_trades st)) = timestamp (md ! b)"
        if "st_trades st \<noteq> []"
        using last_exit [OF that] by (rule ex_less_Suc)
      moreover have "\<exists>a<Suc i. timestamp (md ! i) = timestamp (md ! a)"
        by auto
      moreover have "exitTime (last (st_trades st)) \<le> timestamp (md ! i)"
        if "st_trades st \<noteq> []"
        using last_exit [OF that] earlier by auto
      ultimately have "timeline md (Suc i) ?st'"
        by (simp add: timeline_def fields)
      with None True show ?thesis
        by (simp add: process_signal_def)
    next
      case False
      with None inv show ?thesis
        by (auto simp: process_signal_def timeline_def intro!: ex_less_Suc)
    qed
  next
    case (Some pos)
    show ?thesis
    proof (cases "fst (exit_decision pos (close (md ! i)) ?sig st) = []")
      case True
      with Some inv show ?thesis
        by (auto simp: process_signal_def check_exit_def Let_def timeline_def
            intro!: ex_less_Suc)
    next
      case False
      from inv Some have "no_overlap (st_trades st)"
        and "st_trades st \<noteq> [] \<Longrightarrow> exitTime (last (st_trades st)) \<le> st_entryTime st"
        by (auto simp: timeline_def)
      then have "no_overlap (st_trades st @ [t])" if "entryTime t = st_entryTime st" for t
        using that by (intro no_overlap_snoc) auto
      with False Some show ?thesis
        by (auto simp: process_signal_def check_exit_def Let_def timeline_def)
    qed
  qed
  then show ?thesis by (simp add: process_candle_def timeline_update_equity)
qed

lemma timeline_close_at_end:
  assumes "timeline md i st"
  shows "no_overlap (st_trades (close_at_end md st))"
proof (cases "position st")
  case None
  with assms show ?thesis by (simp add: close_at_end_def timeline_def)
next
  case (Some pos)
  from assms Some have "no_overlap (st_trades st)"
    and "st_trades st \<noteq> [] \<Longrightarrow> exitTime (last (st_trades st)) \<le> st_entryTime st"
    by (auto simp: timeline_def)
  then have "no_overlap (st_trades st @ [t])" if "entryTime t = st_entryTime st" for t
    using that by (intro no_overlap_snoc) auto
  with Some show ?thesis by (simp add: close_at_end_def Let_def)
qed

text \<open>
  Claim C7: when the candle timestamps are strictly increasing, the trades a run of
  \<open>runBacktest\<close> returns never overlap in time: each trade's exit time is at most the
  entry time of the next trade.
\<close>

theorem single_position:
  assumes "sorted_wrt (<) (map timestamp marketData)"
    and "runBacktest lib marketData strategy initialCap = Inr r"
  shows "\<forall>i. Suc i < length (trades r) \<longrightarrow>
           exitTime (trades r ! i) \<le> entryTime (trades r ! Suc i)"
proof -
  from assms(2) have n: "50 \<le> length marketData"
    and r: "r = make_result marketData strategy initialCap
                  (close_at_end marketData (run_loop lib marketData strategy initialCap))"
    by (simp_all add: run_result_iff)
  have "timeline marketData (length marketData) (run_loop lib marketData strategy initialCap)"
    unfolding run_loop_def
    by (rule foldl_upt_invariant [where P = "timeline marketData", OF timeline_init n])
       (rule timeline_step [OF _ _ assms(1)])
  then have "no_overlap (trades r)"
    by (simp add: r timeline_close_at_end)
  then show ?thesis by (simp add: no_overlap_def)
qed

theorem single_position_witness:
  "sorted_wrt (<) (map timestamp tp_series)
   \<and> (\<exists>r. runBacktest lib_up tp_series trend_following (Fin 10000) = Inr r
        \<and> map entryTime (trades r) = [Fin 50, Fin 52]
        \<and> map exitTime (trades r) = [Fin 51, Fin 52]
        \<and> exitTime (trades r ! 0) \<le> entryTime (trades r ! 1))"
proof -
  let ?r = "make_result tp_series trend_following (Fin 10000)
    (close_at_end tp_series (run_loop lib_up tp_series trend_following (Fin 10000)))"
  have run: "runBacktest lib_up tp_series trend_following (Fin 10000) = Inr ?r"
    by (simp add: run_result tp_series_nth)
  have two: "Suc 0 < length (trades ?r)" by (simp add: tp_run)
  from single_position [OF tp_series_increasing run] two
  have "exitTime (trades ?r ! 0) \<le> entryTime (trades ?r ! 1)" by simp
  with run tp_series_increasing show ?thesis by (simp add: tp_run)
qed

section \<open>The signal rules (C8)\<close>

lemma js_less_asym: "(a::jsnum) < b \<Longrightarrow> \<not> b < a"
  by (cases a; cases b) simp_all

lemma js_less_30_70: "(a::jsnum) < Fin 30 \<Longrightarrow> \<not> Fin 70 < a"
  by (cases a) simp_all

lemma signal_exhaust: "sg \<noteq> LONG \<Longrightarrow> sg \<noteq> SHORT \<Longrightarrow> sg = NEUTRAL"
  by (cases sg) simp_all

text \<open>
  Claim C8, as amended: provided the indicators the rule tests for presence are not
  exactly 0 (\<open>ema20\<close> and \<open>sma50\<close> for TREND, \<open>rsi\<close> for MEAN_REVERSION), the signal
  rule engine is a pure function of the candle, the indicators and the style that returns
  exactly: for TREND, LONG iff ema20 > sma50, the MACD histogram is positive and adx > 25,
  SHORT iff ema20 < sma50, the histogram is negative and adx > 25; for MEAN_REVERSION, LONG
  iff rsi < 30 and close < 1.01 times the lower Bollinger band, SHORT iff rsi > 70 and
  close > 0.99 times the upper band; for BREAKOUT, LONG iff close is above the upper
  Donchian band and volumeChange > 20, SHORT iff close is below the lower band and
  volumeChange > 20 and the LONG condition does not hold (LONG is tested first, which
  matters only on a crossed channel, upper below lower); NEUTRAL in every other case. The
  result is the rule table of the specification read as LONG if, else SHORT if, else
  NEUTRAL.
\<close>

theorem generateSignal_rules:
  assumes "style strategy = TREND \<Longrightarrow> ema20 ind \<noteq> Some (Fin 0) \<and> sma50 ind \<noteq> Some (Fin 0)"
    and "style strategy = MEAN_REVERSION \<Longrightarrow> rsi ind \<noteq> Some (Fin 0)"
  shows "generateSignal c ind strategy = spec_signal c ind (style strategy)
    \<and> (style strategy = TREND \<longrightarrow>
          (generateSignal c ind strategy = LONG \<longleftrightarrow>
             num_of (sma50 ind) < num_of (ema20 ind)
             \<and> Fin 0 < num_of (map_option macd_histogram (macd ind))
             \<and> Fin 25 < num_of (adx ind))
        \<and> (generateSignal c ind strategy = SHORT \<longleftrightarrow>
             num_of (ema20 ind) < num_of (sma50 ind)
             \<and> num_of (map_option macd_histogram (macd ind)) < Fin 0
             \<and> Fin 25 < num_of (adx ind)))
    \<and> (style strategy = MEAN_REVERSION \<longrightarrow>
          (generateSignal c ind strategy = LONG \<longleftrightarrow>
             num_of (rsi ind) < Fin 30
             \<and> close c < num_of (map_option lower (bollinger ind)) * Fin 1.01)
        \<and> (generateSignal c ind strategy = SHORT \<longleftrightarrow>
             Fin 70 < num_of (rsi ind)
             \<and> num_of (map_option upper (bollinger ind)) * Fin 0.99 < close c))
    \<and> (style strategy = BREAKOUT \<longrightarrow>
          (generateSignal c ind strategy = LONG \<longleftrightarrow>
             num_of (map_option upper (donchian ind)) < close c
             \<and> Fin 20 < num_of (volumeChange ind))
        \<and> (generateSignal c ind strategy = SHORT \<longleftrightarrow>
             close c < num_of (map_option lower (donchian ind))
             \<and> Fin 20 < num_of (volumeChange ind)
             \<and> \<not> (num_of (map_option upper (donchian ind)) < close c
                  \<and> Fin 20 < num_of (volumeChange ind))))
    \<and> (generateSignal c ind strategy \<noteq> LONG \<and> generateSignal c ind strategy \<noteq> SHORT
          \<longrightarrow> generateSignal c ind strategy = NEUTRAL)"
proof -
  have eq: "generateSignal c ind strategy = spec_signal c ind (style strategy)"
  proof (cases "style strategy")
    case TREND
    with assms show ?thesis
      by (cases "ema20 ind"; cases "sma50 ind"; cases "macd ind")
         (auto simp: generateSignal_def spec_signal_def generateTrendSignal_def truthy_def
           num_of_def)
  next
    case MEAN_REVERSION
    with assms show ?thesis
      by (cases "rsi ind"; cases "bollinger ind")
         (auto simp: generateSignal_def spec_signal_def generateMeanReversionSignal_def
           truthy_def num_of_def)
  next
    case BREAKOUT
    then show ?thesis
      by (cases "volumeChange ind"; cases "donchian ind")
         (auto simp: generateSignal_def spec_signal_def generateBreakoutSignal_def truthy_def
           num_of_def)
  qed
  have trend: "spec_signal c ind TREND = LONG \<longleftrightarrow>
             num_of (sma50 ind) < num_of (ema20 ind)
             \<and> Fin 0 < num_of (map_option macd_histogram (macd ind))
             \<and> Fin 25 < num_of (adx ind)"
      "spec_signal c ind TREND = SHORT \<longleftrightarrow>
             num_of (ema20 ind) < num_of (sma50 ind)
             \<and> num_of (map_option macd_histogram (macd ind)) < Fin 0
             \<and> Fin 25 < num_of (adx ind)"
    by (auto simp: spec_signal_def dest: js_less_asym)
  have mean: "spec_signal c ind MEAN_REVERSION = LONG \<longleftrightarrow>
             num_of (rsi ind) < Fin 30
             \<and> close c < num_of (map_option lower (bollinger ind)) * Fin 1.01"
      "spec_signal c ind MEAN_REVERSION = SHORT \<longleftrightarrow>
             Fin 70 < num_of (rsi ind)
             \<and> num_of (map_option upper (bollinger ind)) * Fin 0.99 < close c"
    by (auto simp: spec_signal_def dest: js_less_30_70)
  have breakout: "spec_signal c ind BREAKOUT = LONG \<longleftrightarrow>
             num_of (map_option upper (donchian ind)) < close c
             \<and> Fin 20 < num_of (volumeChange ind)"
      "spec_signal c ind BREAKOUT = SHORT \<longleftrightarrow>
             close c < num_of (map_option lower (donchian ind))
             \<and> Fin 20 < num_of (volumeChange ind)
             \<and> \<not> (num_of (map_option upper (donchian ind)) < close c
                  \<and> Fin 20 < num_of (volumeChange ind))"
    by (auto simp: spec_signal_def)
  show ?thesis
    using eq trend mean breakout signal_exhaust [of "generateSignal c ind strategy"]
    by simp
qed

theorem generateSignal_rules_witness:
  "ema20 ind_trend_up \<noteq> Some (Fin 0) \<and> sma50 ind_trend_up \<noteq> Some (Fin 0)
   \<and> generateSignal (candle_of 1 100 101 99) ind_trend_up trend_following =
       spec_signal (candle_of 1 100 101 99) ind_trend_up TREND
   \<and> generateSignal (candle_of 1 100 101 99) ind_trend_up trend_following = LONG
   \<and> num_of (sma50 ind_trend_up) < num_of (ema20 ind_trend_up)
   \<and> Fin 0 < num_of (map_option macd_histogram (macd ind_trend_up))
   \<and> Fin 25 < num_of (adx ind_trend_up)"
proof -
  have nz: "ema20 ind_trend_up \<noteq> Some (Fin 0) \<and> sma50 ind_trend_up \<noteq> Some (Fin 0)"
    by (simp add: ind_trend_up_def no_indicators_def)
  have cond: "num_of (sma50 ind_trend_up) < num_of (ema20 ind_trend_up)
      \<and> Fin 0 < num_of (map_option macd_histogram (macd ind_trend_up))
      \<and> Fin 25 < num_of (adx ind_trend_up)"
    by (simp add: ind_trend_up_def no_indicators_def num_of_def)
  have a: "style trend_following = TREND \<Longrightarrow>
      ema20 ind_trend_up \<noteq> Some (Fin 0) \<and> sma50 ind_trend_up \<noteq> Some (Fin 0)"
    using nz by simp
  have b: "style trend_following = MEAN_REVERSION \<Longrightarrow> rsi ind_trend_up \<noteq> Some (Fin 0)"
    by simp
  have trend: "style trend_following = TREND" by simp
  from generateSignal_rules [OF a b, where c = "candle_of 1 100 101 99"] trend
  have "generateSignal (candle_of 1 100 101 99) ind_trend_up trend_following =
      spec_signal (candle_of 1 100 101 99) ind_trend_up TREND
    \<and> (generateSignal (candle_of 1 100 101 99) ind_trend_up trend_following = LONG \<longleftrightarrow>
         num_of (sma50 ind_trend_up) < num_of (ema20 ind_trend_up)
         \<and> Fin 0 < num_of (map_option macd_histogram (macd ind_trend_up))
         \<and> Fin 25 < num_of (adx ind_trend_up))"
    by metis
  with nz cond show ?thesis by metis
qed

text \<open>
  The claim as stated fails where a tested indicator is 0. With the TREND indicators
  ema20 = 101, sma50 = 0, histogram 1 and adx 30 the long condition holds and the engine
  returns NEUTRAL; with the MEAN_REVERSION indicators rsi = 0 and lower band 90, at a close
  of 80, the long condition holds and the engine returns NEUTRAL. It also fails on a
  crossed Donchian channel (upper 5, lower 20): at a close of 10 with volumeChange 30 the
  short condition holds and the engine returns LONG.
\<close>

theorem generateSignal_zero_counterexample:
  "num_of (sma50 ind_sma_failed) < num_of (ema20 ind_sma_failed)
   \<and> Fin 0 < num_of (map_option macd_histogram (macd ind_sma_failed))
   \<and> Fin 25 < num_of (adx ind_sma_failed)
   \<and> spec_signal (candle_of 1 100 101 99) ind_sma_failed TREND = LONG
   \<and> generateSignal (candle_of 1 100 101 99) ind_sma_failed trend_following = NEUTRAL
   \<and> num_of (rsi ind_rsi_zero) < Fin 30
   \<and> close (candle_of 1 80 81 79) < num_of (map_option lower (bollinger ind_rsi_zero)) * Fin 1.01
   \<and> spec_signal (candle_of 1 80 81 79) ind_rsi_zero MEAN_REVERSION = LONG
   \<and> generateSignal (candle_of 1 80 81 79) ind_rsi_zero mean_reversion = NEUTRAL
   \<and> close (candle_of 1 10 11 9) < num_of (map_option lower (donchian ind_crossed))
   \<and> Fin 20 < num_of (volumeChange ind_crossed)
   \<and> generateSignal (candle_of 1 10 11 9) ind_crossed breakout = LONG"
  by (simp add: ind_sma_failed_def ind_trend_up_def ind_rsi_zero_def ind_crossed_def
      no_indicators_def num_of_def spec_signal_def generateSignal_def generateTrendSignal_def
      generateMeanReversionSignal_def generateBreakoutSignal_def truthy_def candle_of_def
      breakout_def)

section \<open>Indicators on a short series (C9)\<close>

text \<open>
  Claim C9, as amended: for every candle list with fewer than 50 elements and every
  strategy, \<open>calculateIndicators\<close> does not fail and returns an object with the single
  key \<open>price\<close>, whose value is the last candle's close when the list is not empty, and
  0 when the list is empty.
\<close>

theorem calculateIndicators_short:
  "length data < 50 \<Longrightarrow>
   calculateIndicators lib data strategy =
     no_indicators\<lparr>price := Some (case last_close data of None \<Rightarrow> Fin 0 | Some c \<Rightarrow> c)\<rparr>"
  by (simp add: calculateIndicators_def last_close_def)

theorem calculateIndicators_short_witness:
  "length [candle_of 1 100 101 99, candle_of 2 102 103 101] < 50 \<and>
   calculateIndicators lib_up [candle_of 1 100 101 99, candle_of 2 102 103 101] trend_following =
     no_indicators\<lparr>price := Some (Fin 102)\<rparr>"
  using calculateIndicators_short
    [of "[candle_of 1 100 101 99, candle_of 2 102 103 101]" lib_up trend_following]
  by (simp add: last_close_def candle_of_def)

text \<open>The claim as stated fails on the empty list: it has no last candle, and the price
  is 0.\<close>

theorem calculateIndicators_empty_counterexample:
  "length ([] :: MarketData list) < 50
   \<and> last_close [] = None
   \<and> price (calculateIndicators lib_up [] trend_following) = Some (Fin 0)
   \<and> price (calculateIndicators lib_up [] trend_following) \<noteq> last_close []"
  by (simp add: calculateIndicators_def last_close_def no_indicators_def)

section \<open>The unguarded position size (C10)\<close>

lemma degenerate_entry:
  assumes sig: "signal_at lib md s i \<noteq> NEUTRAL"
    and no_atr: "\<not> truthy (num_of (atr (indicators_at lib md s i)))"
    and flat: "high (md ! i) = Fin h" "low (md ! i) = Fin h"
    and cl: "close (md ! i) = Fin p"
    and risk: "ic * riskPerTrade s = Fin ra" "0 < ra"
    and tpr: "takeProfitRatio s = Fin q"
  shows "degenerate md (Suc i) (process_candle lib md s (init_state ic) i)"
    and "positionSize (process_candle lib md s (init_state ic) i) = PInf"
proof -
  from sig have "signal_at lib md s i = LONG \<or> signal_at lib md s i = SHORT"
    by (cases "signal_at lib md s i") auto
  then have "degenerate md (Suc i) (process_candle lib md s (init_state ic) i)
      \<and> positionSize (process_candle lib md s (init_state ic) i) = PInf"
    using no_atr flat cl risk tpr
    by (auto simp: process_candle_def process_signal_def enter_position_def atr_value_def
        update_equity_def init_state_def Let_def degenerate_def)
  then show "degenerate md (Suc i) (process_candle lib md s (init_state ic) i)"
    and "positionSize (process_candle lib md s (init_state ic) i) = PInf"
    by simp_all
qed

lemma degenerate_update_equity: "degenerate md i (update_equity st) = degenerate md i st"
  by (simp add: degenerate_def update_equity_def Let_def)

lemma degenerate_step:
  assumes "degenerate md i st" and "close (md ! i) = Fin p"
  shows "degenerate md (Suc i) (process_candle lib md s st i)"
proof -
  from assms(1) consider
    (opened) pos e where "position st = Some pos" "positionSize st = PInf"
      "st_entryPrice st = Fin e" "stopLoss st = Fin e" "takeProfit st = Fin e" "st_trades st = []"
    | (closed) "capital st = NaN" "st_trades st \<noteq> []" "pnl (hd (st_trades st)) = NaN"
    by (auto simp: degenerate_def)
  then have "degenerate md (Suc i) (process_signal s (md ! i) (indicators_at lib md s i)
      (signal_at lib md s i) st)"
  proof cases
    case opened
    with assms(2) show ?thesis
      by (cases pos)
         (auto simp: process_signal_def check_exit_def exit_decision_def Let_def degenerate_def)
  next
    case closed
    then show ?thesis
      by (auto simp: process_signal_def check_exit_def enter_position_def Let_def
          degenerate_def split: option.splits)
  qed
  then show ?thesis by (simp add: process_candle_def degenerate_update_equity)
qed

lemma degenerate_close_at_end:
  assumes "degenerate md (length md) st"
  shows "capital (close_at_end md st) = NaN \<and> st_trades (close_at_end md st) \<noteq> []
    \<and> pnl (hd (st_trades (close_at_end md st))) = NaN"
  using assms
  by (auto simp: degenerate_def close_at_end_def Let_def split: option.splits)

text \<open>
  Claim C10: the position-size division of \<open>runBacktest\<close> is unguarded. Take any series
  of more than 50 candles with finite closes whose first processed candle (index 50) has
  its high equal to its low and gives a LONG or SHORT signal, with no usable \<open>atr\<close> in
  the indicator object (always so for the TREND and MEAN_REVERSION styles, which never
  compute it), a positive finite risk amount and a finite take-profit ratio. Then the
  risk amount is divided by a zero risk per unit: the position size is infinite, the run
  completes without an error, and the result it returns has a NaN final capital and a NaN
  profit on its first trade.
\<close>

theorem unguarded_position_size:
  assumes n: "50 < length marketData"
    and closes: "\<forall>i<length marketData. \<exists>p. close (marketData ! i) = Fin p"
    and sig: "signal_at lib marketData strategy 50 \<noteq> NEUTRAL"
    and no_atr: "style strategy \<noteq> BREAKOUT
                 \<or> \<not> truthy (num_of (atr (indicators_at lib marketData strategy 50)))"
    and flat: "high (marketData ! 50) = Fin h" "low (marketData ! 50) = Fin h"
    and risk: "initialCap * riskPerTrade strategy = Fin ra" "0 < ra"
    and tpr: "takeProfitRatio strategy = Fin q"
  shows "positionSize (process_candle lib marketData strategy (init_state initialCap) 50) = PInf
    \<and> (\<exists>r. runBacktest lib marketData strategy initialCap = Inr r
          \<and> finalCapital r = NaN \<and> trades r \<noteq> [] \<and> pnl (hd (trades r)) = NaN)"
proof -
  let ?step = "process_candle lib marketData strategy"
  have no_atr': "\<not> truthy (num_of (atr (indicators_at lib marketData strategy 50)))"
    using no_atr by (auto simp: indicators_at_def atr_absent truthy_def num_of_def)
  from closes n obtain p where p: "close (marketData ! 50) = Fin p" by auto
  have first: "degenerate marketData 51 (?step (init_state initialCap) 50)"
    and size: "positionSize (?step (init_state initialCap) 50) = PInf"
    using degenerate_entry [OF sig no_atr' flat p risk tpr] by simp_all
  have "degenerate marketData (length marketData)
          (foldl ?step (?step (init_state initialCap) 50) [51..<length marketData])"
  proof (rule foldl_upt_invariant [where P = "degenerate marketData"])
    show "degenerate marketData 51 (?step (init_state initialCap) 50)" by (rule first)
    show "51 \<le> length marketData" using n by simp
    fix i st assume "i < length marketData" "degenerate marketData i st"
    with closes show "degenerate marketData (Suc i) (?step st i)"
      by (auto intro: degenerate_step)
  qed
  moreover have "[50..<length marketData] = 50 # [51..<length marketData]"
    using n by (simp add: upt_rec [of 50])
  ultimately have "degenerate marketData (length marketData)
      (run_loop lib marketData strategy initialCap)"
    by (simp add: run_loop_def)
  then have "capital (close_at_end marketData (run_loop lib marketData strategy initialCap)) = NaN
    \<and> st_trades (close_at_end marketData (run_loop lib marketData strategy initialCap)) \<noteq> []
    \<and> pnl (hd (st_trades (close_at_end marketData
          (run_loop lib marketData strategy initialCap)))) = NaN"
    by (rule degenerate_close_at_end)
  with n size show ?thesis
    by (simp add: run_result)
qed

theorem unguarded_position_size_witness:
  "50 < length doji_series
   \<and> high (doji_series ! 50) = Fin 100 \<and> low (doji_series ! 50) = Fin 100
   \<and> signal_at lib_up doji_series trend_following 50 = LONG
   \<and> style trend_following = TREND
   \<and> Fin 10000 * riskPerTrade trend_following = Fin 100
   \<and> positionSize (process_candle lib_up doji_series trend_following
        (init_state (Fin 10000)) 50) = PInf
   \<and> (\<exists>r. runBacktest lib_up doji_series trend_following (Fin 10000) = Inr r
        \<and> finalCapital r = NaN \<and> map pnl (trades r) = [NaN]
        \<and> equity r = [Fin 10000, Fin 10000, NaN])"
proof -
  have n: "50 < length doji_series" by (simp add: doji_series_nth)
  have sig: "signal_at lib_up doji_series trend_following 50 = LONG"
    by (simp add: signal_up doji_series_nth)
  then have sig': "signal_at lib_up doji_series trend_following 50 \<noteq> NEUTRAL" by simp
  have no_atr: "style trend_following \<noteq> BREAKOUT
      \<or> \<not> truthy (num_of (atr (indicators_at lib_up doji_series trend_following 50)))"
    by simp
  have flat: "high (doji_series ! 50) = Fin 100" "low (doji_series ! 50) = Fin 100"
    by (simp_all add: doji_series_nth candle_of_def)
  have risk: "Fin 10000 * riskPerTrade trend_following = Fin 100" "(0::real) < 100"
    by (simp_all add: trend_following_def)
  have tpr: "takeProfitRatio trend_following = Fin 2"
    by (simp add: trend_following_def)
  from unguarded_position_size [OF n finite_closes(3) sig' no_atr flat risk tpr]
  obtain r where size: "positionSize (process_candle lib_up doji_series trend_following
        (init_state (Fin 10000)) 50) = PInf"
    and r: "runBacktest lib_up doji_series trend_following (Fin 10000) = Inr r"
      "finalCapital r = NaN"
    by blast
  from r(1) have "map pnl (trades r) = [NaN]" "equity r = [Fin 10000, Fin 10000, NaN]"
    by (simp_all add: run_result_iff doji_run)
  with n sig flat risk(1) size r show ?thesis by auto
qed

section \<open>The drawdown bound (C5)\<close>

lemma js_unit_interval:
  "Fin 0 < x \<Longrightarrow> x \<le> Fin 1 \<Longrightarrow> \<exists>v. x = Fin v \<and> 0 < v \<and> v \<le> 1"
  by (cases x) simp_all

lemma solvent_enter:
  assumes "solvent st" and "position st = None" and "sig = LONG \<or> sig = SHORT"
    and "close c = Fin p" and "atr_value ind c = Fin a" and "0 < a"
    and "riskPerTrade s = Fin r" and "0 < r" and "r \<le> 1"
    and "takeProfitRatio s = Fin q" and "0 < q"
  shows "solvent (enter_position s c ind sig st)"
proof -
  from assms(1) obtain cap mx where st: "capital st = Fin cap" "0 \<le> cap"
    "maxEquity st = Fin mx" "0 < mx"
    by (auto simp: solvent_def)
  have size: "0 \<le> cap * r / (a * 2)"
    using \<open>0 \<le> cap\<close> \<open>0 < r\<close> \<open>0 < a\<close> by simp
  have "cap * r \<le> cap * 1"
    using \<open>0 \<le> cap\<close> \<open>r \<le> 1\<close> by (intro mult_left_mono) auto
  then have risk: "a * 2 * (cap * r / (a * 2)) \<le> cap"
    using \<open>0 < a\<close> by simp
  have tp: "0 \<le> a * 2 * q"
    using \<open>0 < a\<close> \<open>0 < q\<close> by simp
  from assms(3) show ?thesis
  proof
    assume "sig = LONG"
    with st assms size risk tp show ?thesis
      by (simp add: solvent_def levels_ok_def enter_position_def Let_def)
  next
    assume "sig = SHORT"
    with st assms size risk tp show ?thesis
      by (simp add: solvent_def levels_ok_def enter_position_def Let_def)
  qed
qed

lemma solvent_exit:
  assumes "solvent st" and pos: "position st = Some pos" and cl: "close c = Fin p"
  shows "solvent (check_exit c sig pos st)"
proof -
  from assms(1) pos obtain cap mx e sl tp z where st: "capital st = Fin cap" "0 \<le> cap"
    "maxEquity st = Fin mx" "0 < mx" "st_entryPrice st = Fin e" "stopLoss st = Fin sl"
    "takeProfit st = Fin tp" "positionSize st = Fin z"
    and lvl: "levels_ok pos cap e sl tp z"
    unfolding solvent_def by blast
  from lvl have z: "0 \<le> z" by (simp add: levels_ok_def)
  have keep: "solvent st'" if "capital st' = Fin cap'" "0 \<le> cap'" "maxEquity st' = Fin mx"
    "position st' = None" for st' cap'
    using that \<open>0 < mx\<close> by (simp add: solvent_def)
  show ?thesis
  proof (cases pos)
    case long
    with lvl have l: "sl \<le> e" "e \<le> tp" "(e - sl) * z \<le> cap"
      by (simp_all add: levels_ok_def)
    have a: "0 \<le> cap + (sl - e) * z"
      using l(3) by (simp add: algebra_simps)
    have b: "0 \<le> cap + (tp - e) * z"
      using l(2) z \<open>0 \<le> cap\<close> by simp
    have c: "0 \<le> cap + (p - e) * z" if "sl < p"
    proof -
      from that z have "(sl - e) * z \<le> (p - e) * z"
        by (intro mult_right_mono) auto
      with a show ?thesis by simp
    qed
    from long st pos cl a b c show ?thesis
      by (simp add: check_exit_def exit_decision_def Let_def not_le keep assms(1))
  next
    case short
    with lvl have l: "e \<le> sl" "tp \<le> e" "(sl - e) * z \<le> cap"
      by (simp_all add: levels_ok_def)
    have a: "0 \<le> cap + (e - sl) * z"
      using l(3) by (simp add: algebra_simps)
    have b: "0 \<le> cap + (e - tp) * z"
      using l(2) z \<open>0 \<le> cap\<close> by simp
    have c: "0 \<le> cap + (e - p) * z" if "p < sl"
    proof -
      from that z have "(e - sl) * z \<le> (e - p) * z"
        by (intro mult_right_mono) auto
      with a show ?thesis by simp
    qed
    from short st pos cl a b c show ?thesis
      by (simp add: check_exit_def exit_decision_def Let_def not_le keep assms(1))
  qed
qed

lemma solvent_process_signal:
  assumes "solvent st" and "close c = Fin p"
    and "sig \<noteq> NEUTRAL \<Longrightarrow> \<exists>a>0. atr_value ind c = Fin a"
    and "riskPerTrade s = Fin r" and "0 < r" and "r \<le> 1"
    and "takeProfitRatio s = Fin q" and "0 < q"
  shows "solvent (process_signal s c ind sig st)"
proof (cases "position st")
  case None
  show ?thesis
  proof (cases "sig = LONG \<or> sig = SHORT")
    case True
    then have "sig \<noteq> NEUTRAL" by auto
    from assms(3) [OF this] obtain a where "0 < a" "atr_value ind c = Fin a" by auto
    with assms None True show ?thesis
      by (simp add: process_signal_def solvent_enter)
  next
    case False
    with None assms(1) show ?thesis by (simp add: process_signal_def)
  qed
next
  case (Some pos)
  with assms(1,2) show ?thesis by (simp add: process_signal_def solvent_exit)
qed

lemma solvent_cong:
  assumes "solvent st" and "capital st' = capital st" and "position st' = position st"
    and "st_entryPrice st' = st_entryPrice st" and "stopLoss st' = stopLoss st"
    and "takeProfit st' = takeProfit st" and "positionSize st' = positionSize st"
    and "maxEquity st' = Fin m" and "0 < m"
  shows "solvent st'"
proof -
  from assms(1) obtain cap mx where a: "capital st = Fin cap" "0 \<le> cap"
    and b: "\<forall>pos. position st = Some pos \<longrightarrow>
              (\<exists>e sl tp z. st_entryPrice st = Fin e \<and> stopLoss st = Fin sl
                 \<and> takeProfit st = Fin tp \<and> positionSize st = Fin z
                 \<and> levels_ok pos cap e sl tp z)"
    unfolding solvent_def by blast
  show ?thesis
    unfolding solvent_def
    by (rule exI [of _ cap], rule exI [of _ m]) (use a b assms(2-) in simp)
qed

lemma curve_process_signal:
  "st_equity (process_signal s c ind sig st) = st_equity st"
  "st_drawdowns (process_signal s c ind sig st) = st_drawdowns st"
  "maxEquity (process_signal s c ind sig st) = maxEquity st"
  by (simp_all add: process_signal_def enter_position_def check_exit_def Let_def
      split: option.splits)

lemma curve_close_at_end:
  "st_equity (close_at_end md st) = st_equity st"
  "st_drawdowns (close_at_end md st) = st_drawdowns st"
  by (simp_all add: close_at_end_def Let_def split: option.splits)

lemma tracked_update_equity:
  assumes "solvent st" and "drawdown_bound (st_equity st) (st_drawdowns st)"
    and "maxEquity st = js_max_list (st_equity st)"
  shows "tracked (update_equity st)"
proof -
  from assms(1) obtain cap mx where st: "capital st = Fin cap" "0 \<le> cap"
    "maxEquity st = Fin mx" "0 < mx"
    by (auto simp: solvent_def)
  define m where "m = (if mx < cap then cap else mx)"
  have m: "js_max (maxEquity st) (capital st) = Fin m" "0 < m" "cap \<le> m"
    using st by (auto simp: m_def)
  define dd where "dd = (m - cap) / m * 100"
  have dd: "((Fin m - capital st) / Fin m) * Fin 100 = Fin dd"
    using m st by (simp add: dd_def)
  have range: "0 \<le> dd" "dd \<le> 100" "cap = m \<Longrightarrow> dd = 0"
    using m \<open>0 \<le> cap\<close> by (simp_all add: dd_def divide_le_eq)
  let ?eq = "st_equity st" and ?dds = "st_drawdowns st"
  have eq': "st_equity (update_equity st) = ?eq @ [Fin cap]"
    and dds': "st_drawdowns (update_equity st) = ?dds @ [Fin dd]"
    and mx': "maxEquity (update_equity st) = Fin m"
    using m dd st by (simp_all add: update_equity_def Let_def)
  have len: "length ?dds = length ?eq"
    using assms(2) by (simp add: drawdown_bound_def)
  have max': "js_max_list (?eq @ [Fin cap]) = Fin m"
    using assms(3) m st by (simp add: js_max_list_snoc)
  have "drawdown_bound (?eq @ [Fin cap]) (?dds @ [Fin dd])"
    unfolding drawdown_bound_def
  proof (intro conjI allI impI)
    show "length (?dds @ [Fin dd]) = length (?eq @ [Fin cap])" using len by simp
  next
    fix i assume i: "i < length (?eq @ [Fin cap])"
    show "Fin 0 \<le> (?dds @ [Fin dd]) ! i"
      using i len assms(2) range
      by (cases "i < length ?eq") (auto simp: nth_append drawdown_bound_def)
    show "(?dds @ [Fin dd]) ! i \<le> Fin 100"
      using i len assms(2) range
      by (cases "i < length ?eq") (auto simp: nth_append drawdown_bound_def)
    assume peak: "(?eq @ [Fin cap]) ! i = js_max_list (take (Suc i) (?eq @ [Fin cap]))"
    show "(?dds @ [Fin dd]) ! i = Fin 0"
    proof (cases "i < length ?eq")
      case True
      with peak assms(2) len show ?thesis
        by (auto simp: nth_append drawdown_bound_def)
    next
      case False
      with i have "i = length ?eq" by simp
      with peak max' range len show ?thesis by (simp add: nth_append)
    qed
  qed
  moreover have "solvent (update_equity st)"
  proof (rule solvent_cong [OF assms(1)])
    show "maxEquity (update_equity st) = Fin m" by (rule mx')
  qed (simp_all add: update_equity_def Let_def \<open>0 < m\<close>)
  ultimately show ?thesis
    using max' by (simp add: tracked_def eq' dds' mx')
qed

lemma tracked_init: "0 < c0 \<Longrightarrow> tracked (init_state (Fin c0))"
  by (simp add: tracked_def solvent_def drawdown_bound_def init_state_def js_max_list_def)

lemma tracked_step:
  assumes "tracked st" and "close (md ! i) = Fin p"
    and "signal_at lib md s i \<noteq> NEUTRAL \<Longrightarrow>
           \<exists>a>0. atr_value (indicators_at lib md s i) (md ! i) = Fin a"
    and "riskPerTrade s = Fin r" and "0 < r" and "r \<le> 1"
    and "takeProfitRatio s = Fin q" and "0 < q"
  shows "tracked (process_candle lib md s st i)"
  unfolding process_candle_def
proof (rule tracked_update_equity)
  show "solvent (process_signal s (md ! i) (indicators_at lib md s i) (signal_at lib md s i) st)"
    by (rule solvent_process_signal [where r = r and q = q and p = p])
       (use assms in \<open>auto simp: tracked_def\<close>)
qed (use assms(1) in \<open>simp_all add: curve_process_signal tracked_def\<close>)

text \<open>
  Claim C5, as amended: under exact arithmetic (the rounding of doubles set aside, as in
  the number model), for every completed run of \<open>runBacktest\<close> with a finite positive
  initial capital, finite closes, \<open>0 < riskPerTrade \<le> 1\<close>, a finite positive
  \<open>takeProfitRatio\<close>, and a finite positive stop distance (the \<open>atr\<close> indicator, or
  high minus low in its absence) on every candle whose signal is LONG or SHORT, the
  drawdowns array is parallel to the equity array, each of its entries lies in
  \<open>[0, 100]\<close>, and \<open>drawdowns[i]\<close> is 0 whenever \<open>equity[i]\<close> equals the maximum of
  the equity up to that point.
\<close>

theorem drawdown_bounds:
  assumes run: "runBacktest lib marketData strategy initialCap = Inr r"
    and cap: "initialCap = Fin c0" "0 < c0"
    and risk: "Fin 0 < riskPerTrade strategy" "riskPerTrade strategy \<le> Fin 1"
    and tpr: "takeProfitRatio strategy = Fin q" "0 < q"
    and closes: "\<forall>i<length marketData. \<exists>p. close (marketData ! i) = Fin p"
    and stops: "\<forall>i<length marketData. signal_at lib marketData strategy i \<noteq> NEUTRAL \<longrightarrow>
        (\<exists>a>0. atr_value (indicators_at lib marketData strategy i) (marketData ! i) = Fin a)"
  shows "length (drawdowns r) = length (equity r)
    \<and> (\<forall>i<length (drawdowns r).
          Fin 0 \<le> drawdowns r ! i \<and> drawdowns r ! i \<le> Fin 100
          \<and> (equity r ! i = js_max_list (take (Suc i) (equity r)) \<longrightarrow> drawdowns r ! i = Fin 0))"
proof -
  from run have n: "50 \<le> length marketData"
    and r: "r = make_result marketData strategy initialCap
                  (close_at_end marketData (run_loop lib marketData strategy initialCap))"
    by (simp_all add: run_result_iff)
  from js_unit_interval [OF risk] obtain rk
    where rk: "riskPerTrade strategy = Fin rk" "0 < rk" "rk \<le> 1"
    by blast
  have "tracked (run_loop lib marketData strategy initialCap)"
    unfolding run_loop_def
  proof (rule foldl_upt_invariant [where P = "\<lambda>_. tracked", OF _ n])
    show "tracked (init_state initialCap)" using cap by (simp add: tracked_init)
  next
    fix i st assume i: "i < length marketData" and st: "tracked st"
    from closes i obtain p where p: "close (marketData ! i) = Fin p" by blast
    from stops i
    have "signal_at lib marketData strategy i \<noteq> NEUTRAL \<Longrightarrow>
        \<exists>a>0. atr_value (indicators_at lib marketData strategy i) (marketData ! i) = Fin a"
      by blast
    then show "tracked (process_candle lib marketData strategy st i)"
      by (rule tracked_step [OF st p _ rk tpr])
  qed
  then have "drawdown_bound (equity r) (drawdowns r)"
    by (simp add: r tracked_def curve_close_at_end)
  then show ?thesis by (simp add: drawdown_bound_def)
qed

theorem drawdown_bounds_witness:
  "\<exists>r. runBacktest lib_up sl_series trend_following (Fin 10000) = Inr r
     \<and> map exitReason (trades r) = [''Stop Loss'', ''End of Test'']
     \<and> equity r = [Fin 10000, Fin 10000, Fin 9900, Fin 9900]
     \<and> drawdowns r = [Fin 0, Fin 0, Fin 1, Fin 1]
     \<and> length (drawdowns r) = length (equity r)
     \<and> Fin 0 \<le> drawdowns r ! 2 \<and> drawdowns r ! 2 \<le> Fin 100
     \<and> drawdowns r ! 1 = Fin 0"
proof -
  let ?r = "make_result sl_series trend_following (Fin 10000)
    (close_at_end sl_series (run_loop lib_up sl_series trend_following (Fin 10000)))"
  have run: "runBacktest lib_up sl_series trend_following (Fin 10000) = Inr ?r"
    by (simp add: run_result sl_series_nth)
  have risk: "Fin 0 < riskPerTrade trend_following" "riskPerTrade trend_following \<le> Fin 1"
    and tpr: "takeProfitRatio trend_following = Fin 2" "(0::real) < 2"
    by (simp_all add: trend_following_def)
  have stops: "\<forall>i<length sl_series. signal_at lib_up sl_series trend_following i \<noteq> NEUTRAL \<longrightarrow>
      (\<exists>a>0. atr_value (indicators_at lib_up sl_series trend_following i) (sl_series ! i) = Fin a)"
    by (simp add: atr_value_no_breakout sl_series_range)
  from drawdown_bounds [OF run refl _ risk tpr finite_closes(2) stops]
  have len: "length (drawdowns ?r) = length (equity ?r)"
    and all: "\<forall>i<length (drawdowns ?r).
          Fin 0 \<le> drawdowns ?r ! i \<and> drawdowns ?r ! i \<le> Fin 100
          \<and> (equity ?r ! i = js_max_list (take (Suc i) (equity ?r)) \<longrightarrow> drawdowns ?r ! i = Fin 0)"
    by simp_all
  have "2 < length (drawdowns ?r)" by (simp add: sl_run)
  with all have "Fin 0 \<le> drawdowns ?r ! 2 \<and> drawdowns ?r ! 2 \<le> Fin 100" by blast
  with run len show ?thesis by (simp add: sl_run)
qed

text \<open>
  The claim as stated fails. With the trend-following strategy (risk 0.01 per trade,
  take-profit ratio 2), a LONG entry on a candle whose high equals its low gives an
  infinite position, and the drawdown recorded after its exit is NaN. With an initial
  capital of 0 the first processed candle records the drawdown \<open>0 / 0\<close>, NaN, although
  the equity there equals its running maximum.
\<close>

theorem drawdown_bounds_counterexample:
  "Fin 0 < riskPerTrade trend_following \<and> riskPerTrade trend_following \<le> Fin 1
   \<and> Fin 0 < takeProfitRatio trend_following
   \<and> map_sum id drawdowns (runBacktest lib_up doji_series trend_following (Fin 10000))
       = Inr [Fin 0, Fin 0, NaN]
   \<and> map_sum id equity (runBacktest lib_throws (flat_series 51) trend_following (Fin 0))
       = Inr [Fin 0, Fin 0]
   \<and> map_sum id drawdowns (runBacktest lib_throws (flat_series 51) trend_following (Fin 0))
       = Inr [Fin 0, NaN]
   \<and> js_max_list [Fin 0, Fin 0] = Fin 0
   \<and> \<not> (Fin 0 \<le> NaN) \<and> NaN \<noteq> Fin 0"
proof -
  have strategy: "Fin 0 < riskPerTrade trend_following \<and> riskPerTrade trend_following \<le> Fin 1
      \<and> Fin 0 < takeProfitRatio trend_following"
    by (simp add: trend_following_def)
  have "length doji_series = 52" "length (flat_series 51) = 51"
    by (simp_all add: doji_series_nth flat_series_def)
  then have "map_sum id drawdowns (runBacktest lib_up doji_series trend_following (Fin 10000))
       = Inr [Fin 0, Fin 0, NaN]
   \<and> map_sum id equity (runBacktest lib_throws (flat_series 51) trend_following (Fin 0))
       = Inr [Fin 0, Fin 0]
   \<and> map_sum id drawdowns (runBacktest lib_throws (flat_series 51) trend_following (Fin 0))
       = Inr [Fin 0, NaN]"
    by (simp add: run_result doji_run flat_run_no_capital)
  with strategy show ?thesis
    by (simp add: js_max_list_def)
qed

section \<open>The expectancy filter (C2)\<close>

lemma set_insert_by: "set (insert_by cmp x xs) = insert x (set xs)"
  by (induction xs) auto

lemma set_js_sort: "set (js_sort cmp xs) = set xs"
proof -
  have "set (foldl (\<lambda>acc x. insert_by cmp x acc) acc xs) = set acc \<union> set xs" for acc
    by (induction xs arbitrary: acc) (auto simp: set_insert_by)
  then show ?thesis by (simp add: js_sort_def)
qed

lemma set_validated:
  "set (foldl (validate_one lib md) acc cs) =
     set acc \<union> (\<lambda>c. c\<lparr>backTestResult := Some (backtest lib c md)\<rparr>)
                 ` {c \<in> set cs. Fin 0 < expectancy (backtest lib c md)}"
  by (induction cs arbitrary: acc) (auto simp: validate_one_def Let_def)

lemma backtest_expectancy:
  "expectancy (backtest lib c md) =
     bt_winRate (backtest lib c md) * avgWin (backtest lib c md)
       - (Fin 1 - bt_winRate (backtest lib c md)) * avgLoss (backtest lib c md)"
  by (simp add: backtest_def Let_def)

text \<open>
  Claim C2, as amended: for every candidate list and every series of at least 100 candles,
  every strategy in the list the validator returns is a candidate with the metrics of its
  one-step-ahead test-split simulation attached, and its expectancy, computed as
  win rate times average win minus (1 - win rate) times average loss, is strictly
  greater than 0; a candidate whose expectancy is not greater than 0 is never returned.
\<close>

theorem validated_expectancy_positive:
  assumes "100 \<le> length marketData"
    and "validateStrategies lib marketData strategies = Inr out"
  shows "\<forall>s\<in>set out. \<exists>c\<in>set strategies.
           s = c\<lparr>backTestResult := Some (backtest lib c marketData)\<rparr>
           \<and> Fin 0 < expectancy (backtest lib c marketData)
           \<and> expectancy (backtest lib c marketData) =
               bt_winRate (backtest lib c marketData) * avgWin (backtest lib c marketData)
                 - (Fin 1 - bt_winRate (backtest lib c marketData))
                     * avgLoss (backtest lib c marketData)"
proof
  fix s assume "s \<in> set out"
  with assms have "s \<in> set (foldl (validate_one lib marketData) [] strategies)"
    by (auto simp: validateStrategies_def set_js_sort)
  then obtain c where "c \<in> set strategies" "Fin 0 < expectancy (backtest lib c marketData)"
    "s = c\<lparr>backTestResult := Some (backtest lib c marketData)\<rparr>"
    by (auto simp: set_validated)
  with backtest_expectancy [of lib c marketData]
  show "\<exists>c\<in>set strategies.
           s = c\<lparr>backTestResult := Some (backtest lib c marketData)\<rparr>
           \<and> Fin 0 < expectancy (backtest lib c marketData)
           \<and> expectancy (backtest lib c marketData) =
               bt_winRate (backtest lib c marketData) * avgWin (backtest lib c marketData)
                 - (Fin 1 - bt_winRate (backtest lib c marketData))
                     * avgLoss (backtest lib c marketData)"
    by blast
qed

lemma backtest_rising_trend:
  "backtest lib_up trend_following (rising_series 172) =
     \<lparr>bt_winRate = Fin 1, expectancy = Fin (1 / 270), bt_trades = 1,
      avgWin = Fin (1 / 270), avgLoss = Fin 0\<rparr>"
  by (simp add: backtest_def rising_series_def split_index_def drop_map Let_def
      upt_rec [of 50] upt_rec [of 51] score_step_def signal_from_up_trend candle_of_def
      truthy_def)

lemma backtest_rising_mean:
  "backtest lib_up mean_reversion (rising_series 172) =
     \<lparr>bt_winRate = Fin 0, expectancy = Fin 0, bt_trades = 0, avgWin = Fin 0,
      avgLoss = Fin 0\<rparr>"
  by (simp add: backtest_def rising_series_def split_index_def drop_map Let_def
      upt_rec [of 50] upt_rec [of 51] score_step_def signal_from_up_mean candle_of_def
      truthy_def)

lemma backtest_flat_99:
  "backtest lib s (flat_series 99) =
     \<lparr>bt_winRate = Fin 0, expectancy = Fin 0, bt_trades = 0, avgWin = Fin 0,
      avgLoss = Fin 0\<rparr>"
  by (simp add: backtest_def flat_series_def split_index_def Let_def truthy_def)

theorem validated_expectancy_positive_witness:
  "100 \<le> length (rising_series 172)
   \<and> validateStrategies lib_up (rising_series 172) [mean_reversion, trend_following] =
       Inr [trend_following\<lparr>backTestResult :=
              Some \<lparr>bt_winRate = Fin 1, expectancy = Fin (1 / 270), bt_trades = 1,
                    avgWin = Fin (1 / 270), avgLoss = Fin 0\<rparr>\<rparr>]
   \<and> expectancy (backtest lib_up mean_reversion (rising_series 172)) = Fin 0
   \<and> (\<exists>c\<in>set [mean_reversion, trend_following].
         Fin 0 < expectancy (backtest lib_up c (rising_series 172))
         \<and> expectancy (backtest lib_up c (rising_series 172)) = Fin (1 / 270))"
proof -
  let ?kept = "trend_following\<lparr>backTestResult :=
              Some \<lparr>bt_winRate = Fin 1, expectancy = Fin (1 / 270), bt_trades = 1,
                    avgWin = Fin (1 / 270), avgLoss = Fin 0\<rparr>\<rparr>"
  have n: "100 \<le> length (rising_series 172)" by (simp add: rising_series_def)
  have out: "validateStrategies lib_up (rising_series 172) [mean_reversion, trend_following] =
      Inr [?kept]"
    using n
    by (simp add: validateStrategies_def validate_one_def backtest_rising_trend
        backtest_rising_mean js_sort_def)
  from validated_expectancy_positive [OF n out]
  obtain c where c: "c \<in> set [mean_reversion, trend_following]"
    "?kept = c\<lparr>backTestResult := Some (backtest lib_up c (rising_series 172))\<rparr>"
    "Fin 0 < expectancy (backtest lib_up c (rising_series 172))"
    by auto
  from c(1,3) have "c = trend_following" by (auto simp: backtest_rising_mean)
  with c have "\<exists>c\<in>set [mean_reversion, trend_following].
         Fin 0 < expectancy (backtest lib_up c (rising_series 172))
         \<and> expectancy (backtest lib_up c (rising_series 172)) = Fin (1 / 270)"
    by (simp add: backtest_rising_trend)
  with n out show ?thesis by (simp add: backtest_rising_mean)
qed

text \<open>
  The claim as stated fails on a series shorter than 100 candles: the validator returns
  the candidates as they are, with no expectancy computed, and the expectancy the
  simulation would compute for them is 0.
\<close>

theorem validate_short_series_counterexample:
  "length (flat_series 99) < 100
   \<and> validateStrategies lib_up (flat_series 99) [trend_following] = Inr [trend_following]
   \<and> backTestResult trend_following = None
   \<and> expectancy (backtest lib_up trend_following (flat_series 99)) = Fin 0
   \<and> \<not> Fin 0 < expectancy (backtest lib_up trend_following (flat_series 99))"
proof -
  have "length (flat_series 99) = 99" by (simp add: flat_series_def)
  moreover have "backTestResult trend_following = None" by (simp add: trend_following_def)
  ultimately show ?thesis
    by (simp add: validateStrategies_def backtest_flat_99)
qed

end
